theory Spec2Isabelle
  imports Main
begin

section \<open>Python values, exceptions and the process state\<close>

text \<open>
  The adapter layer of the YNAB MCP server is modelled as a shallow embedding.
  Python values that cross the tool boundary (tool arguments, request data and
  the plain mappings the tools return) are values of \<open>pyval\<close>; a \<open>dict\<close> with
  string keys is an association list in insertion order.  A Python \<open>str\<close> is a
  list of \<open>char\<close>, one \<open>char\<close> per code point below 256.
\<close>

datatype pyval =
    VNone
  | VBool bool
  | VInt int
  | VStr string
  | VList "pyval list"
  | VDict "(string \<times> pyval) list"

type_synonym pydict = "(string \<times> pyval) list"

text \<open>
  An exception (an instance of a subclass of \<open>Exception\<close>) is its class name
  and the text \<open>str(e)\<close> yields.  A computation that may raise returns
  \<open>py_exception + 'a\<close>, with \<open>Inl\<close> for the raised exception.
\<close>

datatype py_exception = PyException (exn_class: string) (exn_str: string)

type_synonym 'a result = "py_exception + 'a"

text \<open>
  The handle \<open>ApiClient(Configuration(access_token=api_key))\<close>.  The second
  field numbers the constructions of the process, so that two handles are the
  same object exactly when they are equal.
\<close>

datatype api_client = ApiClient (access_token: string) (object_id: nat)

text \<open>
  One entry of the trace of calls into the client library: the API method, the
  keyword arguments handed to it and the exception it raised, if any.
\<close>

datatype api_event = ApiEvent (api_method: string) (api_kwargs: pydict) (api_raised: "py_exception option")

text \<open>
  The state of the process that the tools read and write: the environment
  (\<open>os.getenv\<close>), the module global \<open>ynab_client\<close> of \<open>server.py\<close>, the number
  of \<open>ApiClient\<close> objects constructed so far, the trace of calls into the client
  library, and the records handed to the \<open>logging\<close> module (level and message).
\<close>

record world =
  environ :: "string \<Rightarrow> string option"
  ynab_client :: "api_client option"
  constructed :: nat
  calls :: "api_event list"
  logger_records :: "(string \<times> string) list"

type_synonym 'a action = "world \<Rightarrow> 'a result \<times> world"

definition return_a :: "'a \<Rightarrow> 'a action" where
  "return_a x w = (Inr x, w)"

definition raise_a :: "py_exception \<Rightarrow> 'a action" where
  "raise_a e w = (Inl e, w)"

definition bind_a :: "'a action \<Rightarrow> ('a \<Rightarrow> 'b action) \<Rightarrow> 'b action" where
  "bind_a m f w = (case m w of (Inl e, w') \<Rightarrow> (Inl e, w') | (Inr x, w') \<Rightarrow> f x w')"

definition lift_a :: "'a result \<Rightarrow> 'a action" where
  "lift_a r w = (r, w)"

definition try_except :: "'a action \<Rightarrow> (py_exception \<Rightarrow> 'a action) \<Rightarrow> 'a action" where
  "try_except m h w = (case m w of (Inl e, w') \<Rightarrow> h e w' | (Inr x, w') \<Rightarrow> (Inr x, w'))"

text \<open>The state at import time of \<open>server.py\<close>: \<open>ynab_client = None\<close>, nothing done yet.\<close>

definition process_start :: "(string \<Rightarrow> string option) \<Rightarrow> world" where
  "process_start env =
     \<lparr>environ = env, ynab_client = None, constructed = 0, calls = [], logger_records = []\<rparr>"

definition os_getenv :: "string \<Rightarrow> world \<Rightarrow> string option" where
  "os_getenv name w = environ w name"

definition logger_log :: "string \<Rightarrow> string \<Rightarrow> world \<Rightarrow> world" where
  "logger_log level msg w = w\<lparr>logger_records := logger_records w @ [(level, msg)]\<rparr>"

section \<open>Budget-ID resolution\<close>

text \<open>
  \<^verbatim>\<open>
  def get_budget_id(budget_id: str) -> str:
      if budget_id == "default":
          default_budget = os.getenv("DEFAULT_BUDGET_ID")
          if default_budget:
              return default_budget
          return "last-used"
      return budget_id
  \<close>
  The helper is repeated verbatim in accounts.py, categories.py, payees.py and
  transactions.py, and inlined in budgets.py.  A string is truthy when it is
  not empty.
\<close>

definition get_budget_id :: "world \<Rightarrow> pyval \<Rightarrow> pyval" where
  "get_budget_id w budget_id =
     (if budget_id = VStr ''default'' then
        (case os_getenv ''DEFAULT_BUDGET_ID'' w of
           Some default_budget \<Rightarrow>
             if default_budget \<noteq> [] then VStr default_budget else VStr ''last-used''
         | None \<Rightarrow> VStr ''last-used'')
      else budget_id)"

section \<open>The shared API client\<close>


definition get_ynab_client :: "api_client action" where
  "get_ynab_client w =
     (case ynab_client w of
        None \<Rightarrow>
          (case os_getenv ''YNAB_API_KEY'' w of
             Some api_key \<Rightarrow>
               if api_key = [] then
                 (Inl (PyException ''ValueError'' ''YNAB_API_KEY environment variable is not set''), w)
               else
                 (let c = ApiClient api_key (constructed w);
                      w1 = w\<lparr>ynab_client := Some c, constructed := Suc (constructed w)\<rparr>
                  in (Inr c, logger_log ''INFO'' ''YNAB API client initialized'' w1))
           | None \<Rightarrow>
               (Inl (PyException ''ValueError'' ''YNAB_API_KEY environment variable is not set''), w))
      | Some c \<Rightarrow> (Inr c, w))"



section \<open>Milliunits as currency strings\<close>

text \<open>\<open>int.bit_length()\<close> of a non-negative integer.\<close>

function bit_length :: "int \<Rightarrow> nat" where
  "bit_length n = (if n \<le> 0 then 0 else Suc (bit_length (n div 2)))"
  by pat_completeness auto
termination
  by (relation "measure nat") auto

text \<open>The quotient \<open>a / b\<close> (\<open>b > 0\<close>) rounded to the nearest integer, ties to even.\<close>

definition round_half_even :: "int \<Rightarrow> int \<Rightarrow> int" where
  "round_half_even a b =
     (let q = a div b; r = a mod b
      in if 2 * r < b then q else if b < 2 * r then q + 1 else if even q then q else q + 1)"

text \<open>
  A finite binary float is \<open>mantissa * 2 ^ exponent\<close>.  \<open>scaled_round n d e\<close> is
  \<open>n / (d * 2 ^ e)\<close> rounded to an integer, \<open>scaled_ge n d e k\<close> says that this
  quotient is at least \<open>2 ^ k\<close>; both are computed without fractions.
\<close>

datatype pyfloat = PyFloat (mantissa: int) (exponent: int)

definition scaled_round :: "int \<Rightarrow> int \<Rightarrow> int \<Rightarrow> int" where
  "scaled_round n d e =
     (if 0 \<le> e then round_half_even n (d * 2 ^ nat e)
      else round_half_even (n * 2 ^ nat (- e)) d)"

definition scaled_ge :: "int \<Rightarrow> int \<Rightarrow> int \<Rightarrow> nat \<Rightarrow> bool" where
  "scaled_ge n d e k =
     (if 0 \<le> e then 2 ^ k * (d * 2 ^ nat e) \<le> n
      else 2 ^ k * d \<le> n * 2 ^ nat (- e))"

text \<open>
  The exponent of the double nearest to \<open>n / d\<close> (\<open>n, d > 0\<close>): the \<open>e\<close> with
  \<open>2 ^ 52 \<le> n / (d * 2 ^ e) < 2 ^ 53\<close>, found from the bit lengths, and not below
  the exponent of the subnormals.
\<close>

definition float_exponent :: "int \<Rightarrow> int \<Rightarrow> int" where
  "float_exponent n d =
     (let e0 = int (bit_length n) - int (bit_length d) - 53;
          e1 = (if scaled_ge n d e0 53 then e0 + 1 else e0)
      in max e1 (- 1074))"

text \<open>The rounded quotient \<open>m * 2 ^ e\<close> is beyond the largest finite double.\<close>

definition float_overflows :: "int \<Rightarrow> int \<Rightarrow> bool" where
  "float_overflows m e = (0 \<le> e \<and> 2 ^ 1024 \<le> m * 2 ^ nat e)"

text \<open>
  True division \<open>a / b\<close> of two Python integers: the double nearest to the
  exact quotient (ties to even), \<open>ZeroDivisionError\<close> for \<open>b = 0\<close> and
  \<open>OverflowError\<close> when the quotient is too large for a double.
\<close>

definition int_truediv :: "int \<Rightarrow> int \<Rightarrow> pyfloat result" where
  "int_truediv a b =
     (if b = 0 then Inl (PyException ''ZeroDivisionError'' ''division by zero'')
      else if a = 0 then Inr (PyFloat 0 0)
      else
        (let n = \<bar>a\<bar>; d = \<bar>b\<bar>;
             e = float_exponent n d;
             m = scaled_round n d e
         in if float_overflows m e then
              Inl (PyException ''OverflowError'' ''integer division result too large for a float'')
            else Inr (PyFloat (if (a < 0) = (b < 0) then m else - m) e)))"

text \<open>Decimal digits of a non-negative integer.\<close>

definition digit_char :: "int \<Rightarrow> char" where
  "digit_char n = ''0123456789'' ! nat n"

function decimal :: "int \<Rightarrow> string" where
  "decimal n = (if n < 10 then [digit_char n] else decimal (n div 10) @ [digit_char (n mod 10)])"
  by pat_completeness auto
termination
  by (relation "measure nat") auto

text \<open>
  A number of hundredths written with exactly two decimal places, the sign
  first: \<open>two_decimal_rendering True 1050\<close> is \<open>-10.50\<close>.
\<close>

definition two_decimal_rendering :: "bool \<Rightarrow> int \<Rightarrow> string" where
  "two_decimal_rendering neg cents =
     (if neg then ''-'' else []) @ decimal (cents div 100) @ ''.''
       @ [digit_char (cents mod 100 div 10), digit_char (cents mod 10)]"

text \<open>
  \<open>format(x, ".2f")\<close> of a float: the exact value of \<open>x\<close> rounded to hundredths
  (ties to even), the sign of \<open>x\<close> first.
\<close>

definition format_2f :: "pyfloat \<Rightarrow> string" where
  "format_2f x =
     (let a = \<bar>mantissa x\<bar>; e = exponent x;
          cents = (if 0 \<le> e then a * 2 ^ nat e * 100 else round_half_even (a * 100) (2 ^ nat (- e)))
      in two_decimal_rendering (mantissa x < 0) cents)"

text \<open>
  The expression every formatted companion field is computed by, as in
  \<^verbatim>\<open>"balance_formatted": f"${account.balance / 1000:.2f}"\<close>.
\<close>

definition currency_formatted :: "int \<Rightarrow> string result" where
  "currency_formatted v =
     (case int_truediv v 1000 of Inl e \<Rightarrow> Inl e | Inr x \<Rightarrow> Inr (''$'' @ format_2f x))"

text \<open>
  What the specification asks of the companion string, in exact arithmetic:
  \<open>$\<close>, then \<open>v / 1000\<close> with exactly two decimal places, the sign of a
  negative \<open>v\<close> after the \<open>$\<close>.  The specification names no rounding rule,
  so where \<open>v / 1000\<close> lies halfway between two hundredths both are admitted.
\<close>

definition nearest_hundredths :: "int \<Rightarrow> int list" where
  "nearest_hundredths v =
     (let n = \<bar>v\<bar>
      in if n mod 10 = 5 then [n div 10, n div 10 + 1] else [(n + 5) div 10])"

definition exact_currency_strings :: "int \<Rightarrow> string list" where
  "exact_currency_strings v =
     map (\<lambda>c. ''$'' @ two_decimal_rendering (v < 0) c) (nearest_hundredths v)"


section \<open>Python builtins used by the adapter\<close>

text \<open>Truthiness, as tested by \<open>if x:\<close>, \<open>x and y\<close> and \<open>x or y\<close>.\<close>

fun py_truthy :: "pyval \<Rightarrow> bool" where
  "py_truthy VNone = False"
| "py_truthy (VBool b) = b"
| "py_truthy (VInt i) = (i \<noteq> 0)"
| "py_truthy (VStr s) = (s \<noteq> [])"
| "py_truthy (VList xs) = (xs \<noteq> [])"
| "py_truthy (VDict kvs) = (kvs \<noteq> [])"

text \<open>\<open>sep.join(parts)\<close>.\<close>

fun join :: "string \<Rightarrow> string list \<Rightarrow> string" where
  "join sep [] = []"
| "join sep [x] = x"
| "join sep (x # y # ys) = x @ sep @ join sep (y # ys)"

text \<open>
  \<open>repr\<close> of a string: single quotes, unless the string holds a single quote
  and no double quote; the quote, the backslash and the unprintable characters
  escaped.  Code points from 161 on are printable, the soft hyphen (173) apart.
\<close>

definition hex_digit :: "nat \<Rightarrow> char" where
  "hex_digit n = ''0123456789abcdef'' ! n"

definition is_printable :: "char \<Rightarrow> bool" where
  "is_printable c =
     (let n = (of_char c :: nat) in (32 \<le> n \<and> n < 127) \<or> (161 \<le> n \<and> n \<noteq> 173))"

definition repr_char :: "char \<Rightarrow> char \<Rightarrow> string" where
  "repr_char quote c =
     (if c = quote \<or> c = CHR 0x5C then [CHR 0x5C, c]
      else if c = CHR 0x09 then [CHR 0x5C, CHR ''t'']
      else if c = CHR 0x0A then [CHR 0x5C, CHR ''n'']
      else if c = CHR 0x0D then [CHR 0x5C, CHR ''r'']
      else if is_printable c then [c]
      else [CHR 0x5C, CHR ''x'', hex_digit (of_char c div 16), hex_digit (of_char c mod 16)])"

definition str_repr :: "string \<Rightarrow> string" where
  "str_repr s =
     (let quote = (if CHR 0x27 \<in> set s \<and> CHR 0x22 \<notin> set s then CHR 0x22 else CHR 0x27)
      in [quote] @ concat (map (repr_char quote) s) @ [quote])"

definition int_repr :: "int \<Rightarrow> string" where
  "int_repr i = (if i < 0 then ''-'' @ decimal (- i) else decimal i)"

fun py_repr :: "pyval \<Rightarrow> string" where
  "py_repr VNone = ''None''"
| "py_repr (VBool b) = (if b then ''True'' else ''False'')"
| "py_repr (VInt i) = int_repr i"
| "py_repr (VStr s) = str_repr s"
| "py_repr (VList xs) = ''['' @ join '', '' (map py_repr xs) @ '']''"
| "py_repr (VDict kvs) =
     ''{'' @ join '', '' (map (\<lambda>kv. str_repr (fst kv) @ '': '' @ py_repr (snd kv)) kvs) @ ''}''"

text \<open>\<open>str(x)\<close>, which is also what \<open>{x}\<close> in an f-string yields.\<close>

definition py_str :: "pyval \<Rightarrow> string" where
  "py_str v = (case v of VStr s \<Rightarrow> s | _ \<Rightarrow> py_repr v)"

definition type_name :: "pyval \<Rightarrow> string" where
  "type_name v =
     (case v of VNone \<Rightarrow> ''NoneType'' | VBool _ \<Rightarrow> ''bool'' | VInt _ \<Rightarrow> ''int''
      | VStr _ \<Rightarrow> ''str'' | VList _ \<Rightarrow> ''list'' | VDict _ \<Rightarrow> ''dict'')"

definition attribute_error :: "string \<Rightarrow> string \<Rightarrow> py_exception" where
  "attribute_error tname attr =
     PyException ''AttributeError''
       ([CHR 0x27] @ tname @ [CHR 0x27] @ '' object has no attribute '' @ [CHR 0x27] @ attr @ [CHR 0x27])"

text \<open>
  \<open>str.lower()\<close> on code points below 256: the ASCII capitals and the Latin-1
  capitals (192 to 222, the multiplication sign 215 apart) move up by 32.
\<close>

definition lower_char :: "char \<Rightarrow> char" where
  "lower_char c =
     (let n = (of_char c :: nat)
      in if (65 \<le> n \<and> n \<le> 90) \<or> (192 \<le> n \<and> n \<le> 222 \<and> n \<noteq> 215) then char_of (n + 32) else c)"

definition str_lower :: "string \<Rightarrow> string" where
  "str_lower s = map lower_char s"

text \<open>\<open>x.lower()\<close> of an arbitrary value: only a \<open>str\<close> has the method.\<close>

definition py_lower :: "pyval \<Rightarrow> string result" where
  "py_lower v = (case v of VStr s \<Rightarrow> Inr (str_lower s) | _ \<Rightarrow> Inl (attribute_error (type_name v) ''lower''))"

text \<open>\<open>needle in haystack\<close> on strings: \<open>needle\<close> occurs as a contiguous run.\<close>

fun str_contains :: "string \<Rightarrow> string \<Rightarrow> bool" where
  "str_contains needle [] = (needle = [])"
| "str_contains needle (c # cs) =
     (take (length needle) (c # cs) = needle \<or> str_contains needle cs)"

section \<open>Function calls and the call-logging decorator\<close>

text \<open>
  A Python function of the adapter: its name, its parameters in order (all
  positional-or-keyword, each with its default if it has one) and its body,
  which runs on the bound arguments.
\<close>

datatype param = Param (param_name: string) (param_default: "pyval option")

record py_function =
  func_name :: string
  func_params :: "param list"
  func_body :: "pydict \<Rightarrow> pydict action"

definition type_error :: "string \<Rightarrow> py_exception" where
  "type_error msg = PyException ''TypeError'' msg"

text \<open>
  \<open>inspect.signature(func).bind(*args, **kwargs)\<close>: positional arguments fill the
  parameters from the left, keyword arguments the rest by name; a parameter
  left out must have a default.  The result holds the arguments given, in
  parameter order.  The interpreter binds the arguments of a call by the same
  rules (only the wording of its \<open>TypeError\<close> differs, which is not modelled).
\<close>

fun sig_bind :: "param list \<Rightarrow> pyval list \<Rightarrow> pydict \<Rightarrow> pydict result" where
  "sig_bind [] [] kwargs =
     (case kwargs of
        [] \<Rightarrow> Inr []
      | kv # _ \<Rightarrow> Inl (type_error (''got an unexpected keyword argument '' @ str_repr (fst kv))))"
| "sig_bind [] (a # as) kwargs = Inl (type_error ''too many positional arguments'')"
| "sig_bind (p # ps) (a # as) kwargs =
     (if param_name p \<in> fst ` set kwargs then
        Inl (type_error (''multiple values for argument '' @ str_repr (param_name p)))
      else
        (case sig_bind ps as kwargs of
           Inl e \<Rightarrow> Inl e
         | Inr bound \<Rightarrow> Inr ((param_name p, a) # bound)))"
| "sig_bind (p # ps) [] kwargs =
     (case map_of kwargs (param_name p) of
        Some v \<Rightarrow>
          (case sig_bind ps [] (filter (\<lambda>kv. fst kv \<noteq> param_name p) kwargs) of
             Inl e \<Rightarrow> Inl e
           | Inr bound \<Rightarrow> Inr ((param_name p, v) # bound))
      | None \<Rightarrow>
          (case param_default p of
             None \<Rightarrow> Inl (type_error (''missing a required argument: '' @ str_repr (param_name p)))
           | Some d \<Rightarrow> sig_bind ps [] kwargs))"

text \<open>\<open>bound_args.apply_defaults()\<close>: the parameters left out get their defaults.\<close>

fun apply_defaults :: "param list \<Rightarrow> pydict \<Rightarrow> pydict" where
  "apply_defaults [] bound = []"
| "apply_defaults (p # ps) bound =
     (case map_of bound (param_name p) of
        Some v \<Rightarrow> (param_name p, v) # apply_defaults ps bound
      | None \<Rightarrow>
          (case param_default p of
             Some d \<Rightarrow> (param_name p, d) # apply_defaults ps bound
           | None \<Rightarrow> apply_defaults ps bound))"

text \<open>The call \<open>func(*args, **kwargs)\<close>: bind the arguments, then run the body.\<close>

definition py_call :: "py_function \<Rightarrow> pyval list \<Rightarrow> pydict \<Rightarrow> pydict action" where
  "py_call f args kwargs w =
     (case sig_bind (func_params f) args kwargs of
        Inl e \<Rightarrow> (Inl e, w)
      | Inr bound \<Rightarrow> func_body f (apply_defaults (func_params f) bound) w)"

text \<open>The value of a parameter inside a body (every parameter is bound there).\<close>

definition arg :: "pydict \<Rightarrow> string \<Rightarrow> pyval" where
  "arg args name = (case map_of args name of Some v \<Rightarrow> v | None \<Rightarrow> VNone)"

text \<open>
  The state of \<open>debug_utils.py\<close>: the module global \<open>LOGGING_ENABLED\<close> and what
  has been printed to \<open>sys.stderr\<close>, one entry per \<open>print\<close>.
  \<^verbatim>\<open>
  def debug_log_tool_call(tool_name, arguments):
      def format_value(v):
          if isinstance(v, str) and len(v) > 50:
              return f'"{v[:47]}..."'
          return repr(v)
      args_str = ", ".join(f"{k}={format_value(v)}" for k, v in arguments.items())
      log_message = f"TOOL_CALL: {tool_name}({args_str})"
      print(log_message, file=sys.stderr, flush=True)

  def log_tool_call(func):
      @functools.wraps(func)
      def wrapper(*args, **kwargs):
          if LOGGING_ENABLED:
              sig = inspect.signature(func)
              bound_args = sig.bind(*args, **kwargs)
              bound_args.apply_defaults()
              debug_log_tool_call(func.__name__, bound_args.arguments)
          return func(*args, **kwargs)
      return wrapper
  \<close>
\<close>

record debug_state =
  LOGGING_ENABLED :: bool
  stderr :: "string list"

definition set_logging_enabled :: "bool \<Rightarrow> debug_state \<Rightarrow> debug_state" where
  "set_logging_enabled enabled d = d\<lparr>LOGGING_ENABLED := enabled\<rparr>"

definition format_value :: "pyval \<Rightarrow> string" where
  "format_value v =
     (case v of
        VStr s \<Rightarrow> if length s > 50 then [CHR 0x22] @ take 47 s @ ''...'' @ [CHR 0x22] else py_repr v
      | _ \<Rightarrow> py_repr v)"

definition log_message :: "string \<Rightarrow> pydict \<Rightarrow> string" where
  "log_message tool_name arguments =
     ''TOOL_CALL: '' @ tool_name @ ''(''
       @ join '', '' (map (\<lambda>kv. fst kv @ ''='' @ format_value (snd kv)) arguments) @ '')''"

definition debug_log_tool_call :: "string \<Rightarrow> pydict \<Rightarrow> debug_state \<Rightarrow> debug_state" where
  "debug_log_tool_call tool_name arguments d =
     d\<lparr>stderr := stderr d @ [log_message tool_name arguments]\<rparr>"

definition log_tool_call ::
  "py_function \<Rightarrow> pyval list \<Rightarrow> pydict \<Rightarrow> debug_state \<times> world \<Rightarrow> pydict result \<times> debug_state \<times> world" where
  "log_tool_call func args kwargs = (\<lambda>(d, w).
     if LOGGING_ENABLED d then
       (case sig_bind (func_params func) args kwargs of
          Inl e \<Rightarrow> (Inl e, d, w)
        | Inr bound \<Rightarrow>
            (let d' = debug_log_tool_call (func_name func) (apply_defaults (func_params func) bound) d
             in case py_call func args kwargs w of (r, w') \<Rightarrow> (r, d', w')))
     else (case py_call func args kwargs w of (r, w') \<Rightarrow> (r, d, w')))"

text \<open>A two-parameter function that returns its bound arguments, to run the decorator on.\<close>

definition echo :: py_function where
  "echo = \<lparr>func_name = ''echo'', func_params = [Param ''x'' None, Param ''y'' (Some (VInt 2))],
           func_body = (\<lambda>args w. (Inr args, w))\<rparr>"

section \<open>The client library: entities, responses and calls\<close>

text \<open>
  The response objects of the \<open>ynab\<close> client library, with the attributes the
  adapter reads.  An attribute the adapter only copies into its output is a
  \<open>pyval\<close>; one it computes with has its own type: the monetary amounts are
  integers (milliunits), the flags it tests are booleans, the name of a payee
  (which \<open>search_payees\<close> lowers) is a string, a date is the text
  its \<open>isoformat()\<close> yields, an attribute that may be \<open>None\<close> and is tested for it
  is an option.
\<close>

datatype account = Account
  (a_id: pyval) (a_name: pyval) (a_type: pyval) (a_on_budget: pyval) (a_closed: bool)
  (a_note: pyval) (a_balance: int) (a_cleared_balance: int) (a_uncleared_balance: int)
  (a_transfer_payee_id: pyval) (a_direct_import_linked: pyval)
  (a_direct_import_in_error: pyval) (a_deleted: bool)

datatype category = Category
  (c_id: pyval) (c_category_group_id: pyval) (c_category_group_name: pyval) (c_name: pyval)
  (c_hidden: pyval) (c_note: pyval) (c_budgeted: int) (c_activity: int) (c_balance: int)
  (c_goal_type: pyval) (c_goal_creation_month: pyval) (c_goal_target: pyval)
  (c_goal_target_month: pyval) (c_goal_percentage_complete: pyval) (c_deleted: pyval)

datatype category_group = CategoryGroup
  (g_id: pyval) (g_name: pyval) (g_hidden: pyval) (g_deleted: pyval)
  (g_categories: "category list option")

datatype payee = Payee
  (p_id: pyval) (p_name: string) (p_transfer_account_id: pyval) (p_deleted: pyval)

datatype payee_location = PayeeLocation
  (l_id: pyval) (l_payee_id: pyval) (l_latitude: pyval) (l_longitude: pyval) (l_deleted: pyval)

datatype txn = Transaction
  (t_id: pyval) (t_var_date: "string option") (t_amount: int) (t_memo: pyval)
  (t_cleared: pyval) (t_approved: pyval) (t_flag_color: pyval) (t_account_id: pyval)
  (t_account_name: pyval) (t_payee_id: pyval) (t_payee_name: pyval) (t_category_id: pyval)
  (t_category_name: pyval) (t_transfer_account_id: pyval) (t_import_id: pyval)
  (t_deleted: pyval) (t_subtransactions: pyval)

datatype date_format = DateFormat (df_format: pyval)

datatype currency_format = CurrencyFormat
  (cf_iso_code: pyval) (cf_example_format: pyval) (cf_decimal_digits: pyval)
  (cf_decimal_separator: pyval) (cf_symbol_first: pyval) (cf_group_separator: pyval)
  (cf_currency_symbol: pyval) (cf_display_symbol: pyval)

datatype month_summary = MonthSummary
  (m_month: pyval) (m_income: pyval) (m_budgeted: pyval) (m_activity: pyval)
  (m_to_be_budgeted: pyval) (m_deleted: pyval)

datatype budget_summary = BudgetSummary
  (b_id: pyval) (b_name: pyval) (b_last_modified_on: "string option")
  (b_date_format: "date_format option") (b_currency_format: "currency_format option")
  (b_accounts: "account list option")

datatype budget_detail = BudgetDetail
  (bd_id: pyval) (bd_name: pyval) (bd_last_modified_on: "string option")
  (bd_accounts: "account list option") (bd_category_groups: "category_group list option")
  (bd_payees: "payee list option") (bd_months: "month_summary list option")

datatype budget_settings = BudgetSettings
  (s_date_format: "date_format option") (s_currency_format: "currency_format option")

text \<open>\<open>u_name\<close> is \<open>None\<close> when the user object has no attribute \<open>name\<close>.\<close>

datatype user = User (u_id: pyval) (u_name: "pyval option")

text \<open>
  What an API method returns, by the attributes of \<open>response.data\<close> the adapter
  reads.  Reading an attribute off a response of another shape raises
  \<open>AttributeError\<close>.
\<close>

datatype api_response =
    BudgetsResponse "budget_summary list" "budget_summary option"
  | BudgetDetailResponse budget_detail pyval
  | BudgetSettingsResponse budget_settings
  | AccountsResponse "account list" pyval
  | AccountResponse account
  | CategoriesResponse "category_group list" pyval
  | CategoryResponse category
  | PayeesResponse "payee list" pyval
  | PayeeResponse payee
  | PayeeLocationsResponse "payee_location list"
  | PayeeLocationResponse payee_location
  | TransactionsResponse "txn list" pyval
  | TransactionResponse txn
  | SaveTransactionsResponse "txn option" pyval
  | TransactionsImportResponse "pyval list option"
  | UserResponse user

text \<open>
  The client library and the remote API behind it are not part of the
  repository: they are a parameter of the model.  Given the calls made so far,
  the API method and its keyword arguments (request models as mappings), the
  library returns a response or raises; an exception of a request-model
  constructor surfaces at the same point.  Every call is appended to the trace.
\<close>

type_synonym remote = "api_event list \<Rightarrow> string \<Rightarrow> pydict \<Rightarrow> api_response result"

definition api_call :: "remote \<Rightarrow> string \<Rightarrow> pydict \<Rightarrow> api_response action" where
  "api_call R method kwargs w =
     (let r = R (calls w) method kwargs
      in (r, w\<lparr>calls := calls w @
              [ApiEvent method kwargs (case r of Inl e \<Rightarrow> Some e | Inr _ \<Rightarrow> None)]\<rparr>))"

definition no_data_attribute :: "string \<Rightarrow> py_exception" where
  "no_data_attribute attr = attribute_error ''object'' attr"

text \<open>\<open>x if x is not None else None\<close> for an optional date text.\<close>

definition opt_str :: "string option \<Rightarrow> pyval" where
  "opt_str x = (case x of Some s \<Rightarrow> VStr s | None \<Rightarrow> VNone)"

text \<open>
  The \<open>except Exception as e\<close> clause every tool ends with: one record for the
  \<open>logging\<close> module, then \<open>return {"error": str(e)}\<close>.
\<close>

definition error_result :: "string \<Rightarrow> py_exception \<Rightarrow> pydict action" where
  "error_result msg e w =
     (Inr [(''error'', VStr (exn_str e))], logger_log ''ERROR'' (msg @ '': '' @ exn_str e) w)"

section \<open>Account tools (ynab\_mcp\_server/tools/accounts.py)\<close>

definition account_dict :: "account \<Rightarrow> pydict" where
  "account_dict account =
     [(''id'', a_id account),
      (''name'', a_name account),
      (''type'', a_type account),
      (''on_budget'', a_on_budget account),
      (''closed'', VBool (a_closed account)),
      (''note'', a_note account),
      (''balance'', VInt (a_balance account)),
      (''cleared_balance'', VInt (a_cleared_balance account)),
      (''uncleared_balance'', VInt (a_uncleared_balance account)),
      (''transfer_payee_id'', a_transfer_payee_id account),
      (''direct_import_linked'', a_direct_import_linked account),
      (''direct_import_in_error'', a_direct_import_in_error account),
      (''deleted'', VBool (a_deleted account))]"

text \<open>
  The loop of \<open>get_accounts\<close>:
  \<^verbatim>\<open>
  for account in response.data.accounts:
      if account.closed and not include_closed:
          continue
      if account.deleted and not include_deleted:
          continue
      accounts_list.append({...})
  \<close>
\<close>

fun accounts_loop :: "pyval \<Rightarrow> pyval \<Rightarrow> account list \<Rightarrow> pyval list \<Rightarrow> pyval list" where
  "accounts_loop include_closed include_deleted [] accounts_list = accounts_list"
| "accounts_loop include_closed include_deleted (account # rest) accounts_list =
     (if a_closed account \<and> \<not> py_truthy include_closed then
        accounts_loop include_closed include_deleted rest accounts_list
      else if a_deleted account \<and> \<not> py_truthy include_deleted then
        accounts_loop include_closed include_deleted rest accounts_list
      else
        accounts_loop include_closed include_deleted rest
          (accounts_list @ [VDict (account_dict account)]))"

definition get_accounts_try :: "remote \<Rightarrow> pydict \<Rightarrow> pydict action" where
  "get_accounts_try R args w =
     (let budget_id = get_budget_id w (arg args ''budget_id'')
      in bind_a get_ynab_client (\<lambda>api_client.
         bind_a (api_call R ''get_accounts''
                   [(''budget_id'', budget_id),
                    (''last_knowledge_of_server'', arg args ''last_knowledge_of_server'')])
           (\<lambda>response.
              case response of
                AccountsResponse accounts server_knowledge \<Rightarrow>
                  return_a
                    [(''accounts'', VList (accounts_loop (arg args ''include_closed'')
                         (arg args ''include_deleted'') accounts [])),
                     (''server_knowledge'', server_knowledge)]
              | _ \<Rightarrow> raise_a (no_data_attribute ''accounts''))) w)"

definition get_accounts :: "remote \<Rightarrow> py_function" where
  "get_accounts R =
     \<lparr>func_name = ''get_accounts'',
      func_params =
        [Param ''budget_id'' (Some (VStr ''default'')),
         Param ''last_knowledge_of_server'' (Some VNone),
         Param ''include_closed'' (Some (VBool False)),
         Param ''include_deleted'' (Some (VBool False))],
      func_body = (\<lambda>args.
        try_except (get_accounts_try R args) (error_result ''Error getting accounts''))\<rparr>"

definition get_account_by_id_try :: "remote \<Rightarrow> pydict \<Rightarrow> pydict action" where
  "get_account_by_id_try R args w =
     (let budget_id = get_budget_id w (arg args ''budget_id'')
      in bind_a get_ynab_client (\<lambda>api_client.
         bind_a (api_call R ''get_account_by_id''
                   [(''budget_id'', budget_id), (''account_id'', arg args ''account_id'')])
           (\<lambda>response.
              case response of
                AccountResponse account \<Rightarrow> return_a (account_dict account)
              | _ \<Rightarrow> raise_a (no_data_attribute ''account''))) w)"

definition get_account_by_id :: "remote \<Rightarrow> py_function" where
  "get_account_by_id R =
     \<lparr>func_name = ''get_account_by_id'',
      func_params = [Param ''account_id'' None, Param ''budget_id'' (Some (VStr ''default''))],
      func_body = (\<lambda>args.
        try_except (get_account_by_id_try R args)
          (error_result (''Error getting account '' @ py_str (arg args ''account_id''))))\<rparr>"

definition valid_types :: "string list" where
  "valid_types =
     [''checking'', ''savings'', ''creditCard'', ''cash'', ''lineOfCredit'',
      ''otherAsset'', ''otherLiability'', ''payPal'', ''merchantAccount'',
      ''investmentAccount'', ''mortgage'']"

definition create_account_try :: "remote \<Rightarrow> pydict \<Rightarrow> pydict action" where
  "create_account_try R args w =
     (let budget_id = get_budget_id w (arg args ''budget_id'')
      in if arg args ''type'' \<notin> VStr ` set valid_types then
           return_a
             [(''error'', VStr (''Invalid account type. Must be one of: '' @ join '', '' valid_types))] w
         else
           bind_a get_ynab_client (\<lambda>api_client.
           bind_a (api_call R ''create_account''
                     [(''budget_id'', budget_id),
                      (''data'', VDict [(''account'',
                         VDict [(''name'', arg args ''name''),
                                (''type'', arg args ''type''),
                                (''balance'', arg args ''balance'')])])])
             (\<lambda>response.
                case response of
                  AccountResponse account \<Rightarrow>
                    return_a
                      [(''id'', a_id account),
                       (''name'', a_name account),
                       (''type'', a_type account),
                       (''on_budget'', a_on_budget account),
                       (''closed'', VBool (a_closed account)),
                       (''balance'', VInt (a_balance account)),
                       (''cleared_balance'', VInt (a_cleared_balance account)),
                       (''uncleared_balance'', VInt (a_uncleared_balance account)),
                       (''transfer_payee_id'', a_transfer_payee_id account),
                       (''message'', VStr ''Account created successfully'')]
                | _ \<Rightarrow> raise_a (no_data_attribute ''account''))) w)"

definition create_account :: "remote \<Rightarrow> py_function" where
  "create_account R =
     \<lparr>func_name = ''create_account'',
      func_params =
        [Param ''name'' None, Param ''type'' None, Param ''balance'' None,
         Param ''budget_id'' (Some (VStr ''default''))],
      func_body = (\<lambda>args.
        try_except (create_account_try R args) (error_result ''Error creating account''))\<rparr>"

definition get_account_balance_try :: "remote \<Rightarrow> pydict \<Rightarrow> pydict action" where
  "get_account_balance_try R args w =
     (let budget_id = get_budget_id w (arg args ''budget_id'')
      in bind_a get_ynab_client (\<lambda>api_client.
         bind_a (api_call R ''get_account_by_id''
                   [(''budget_id'', budget_id), (''account_id'', arg args ''account_id'')])
           (\<lambda>response.
              case response of
                AccountResponse account \<Rightarrow>
                  bind_a (lift_a (currency_formatted (a_balance account))) (\<lambda>balance_formatted.
                  bind_a (lift_a (currency_formatted (a_cleared_balance account))) (\<lambda>cleared_formatted.
                  bind_a (lift_a (currency_formatted (a_uncleared_balance account))) (\<lambda>uncleared_formatted.
                    return_a
                      [(''account_name'', a_name account),
                       (''balance'', VInt (a_balance account)),
                       (''cleared_balance'', VInt (a_cleared_balance account)),
                       (''uncleared_balance'', VInt (a_uncleared_balance account)),
                       (''balance_formatted'', VStr balance_formatted),
                       (''cleared_balance_formatted'', VStr cleared_formatted),
                       (''uncleared_balance_formatted'', VStr uncleared_formatted)])))
              | _ \<Rightarrow> raise_a (no_data_attribute ''account''))) w)"

definition get_account_balance :: "remote \<Rightarrow> py_function" where
  "get_account_balance R =
     \<lparr>func_name = ''get_account_balance'',
      func_params = [Param ''account_id'' None, Param ''budget_id'' (Some (VStr ''default''))],
      func_body = (\<lambda>args.
        try_except (get_account_balance_try R args)
          (error_result (''Error getting account balance for '' @ py_str (arg args ''account_id''))))\<rparr>"

section \<open>Category tools (src/tools/categories.py)\<close>

text \<open>
  The three monetary fields of a category with their formatted companions, in
  the order the dictionary displays of categories.py list them:
  \<^verbatim>\<open>
  "budgeted": cat.budgeted,
  "budgeted_formatted": f"${cat.budgeted / 1000:.2f}",
  "activity": cat.activity,
  "activity_formatted": f"${cat.activity / 1000:.2f}",
  "balance": cat.balance,
  "balance_formatted": f"${cat.balance / 1000:.2f}",
  \<close>
\<close>

definition category_amounts :: "category \<Rightarrow> pydict result" where
  "category_amounts cat =
     (case currency_formatted (c_budgeted cat) of Inl e \<Rightarrow> Inl e | Inr budgeted_formatted \<Rightarrow>
      case currency_formatted (c_activity cat) of Inl e \<Rightarrow> Inl e | Inr activity_formatted \<Rightarrow>
      case currency_formatted (c_balance cat) of Inl e \<Rightarrow> Inl e | Inr balance_formatted \<Rightarrow>
        Inr [(''budgeted'', VInt (c_budgeted cat)),
             (''budgeted_formatted'', VStr budgeted_formatted),
             (''activity'', VInt (c_activity cat)),
             (''activity_formatted'', VStr activity_formatted),
             (''balance'', VInt (c_balance cat)),
             (''balance_formatted'', VStr balance_formatted)])"

text \<open>The category dictionary of \<open>get_categories\<close>.\<close>

definition listed_category_dict :: "category \<Rightarrow> pydict result" where
  "listed_category_dict cat =
     (case category_amounts cat of
        Inl e \<Rightarrow> Inl e
      | Inr amounts \<Rightarrow>
          Inr ([(''id'', c_id cat),
                (''name'', c_name cat),
                (''hidden'', c_hidden cat),
                (''note'', c_note cat)]
               @ amounts @
               [(''goal_type'', c_goal_type cat),
                (''goal_creation_month'', c_goal_creation_month cat),
                (''goal_target'', c_goal_target cat),
                (''goal_target_month'', c_goal_target_month cat),
                (''goal_percentage_complete'', c_goal_percentage_complete cat),
                (''deleted'', c_deleted cat)]))"

text \<open>\<open>for cat in group.categories: group_dict["categories"].append({...})\<close>.\<close>

fun categories_loop :: "category list \<Rightarrow> pyval list \<Rightarrow> pyval list result" where
  "categories_loop [] categories = Inr categories"
| "categories_loop (cat # rest) categories =
     (case listed_category_dict cat of
        Inl e \<Rightarrow> Inl e
      | Inr d \<Rightarrow> categories_loop rest (categories @ [VDict d]))"

definition group_dict :: "category_group \<Rightarrow> pydict result" where
  "group_dict grp =
     (case (case g_categories grp of
              None \<Rightarrow> Inr []
            | Some cats \<Rightarrow> categories_loop cats []) of
        Inl e \<Rightarrow> Inl e
      | Inr categories \<Rightarrow>
          Inr [(''id'', g_id grp),
               (''name'', g_name grp),
               (''hidden'', g_hidden grp),
               (''deleted'', g_deleted grp),
               (''categories'', VList categories)])"

text \<open>\<open>for group in response.data.category_groups: ... category_groups.append(group_dict)\<close>.\<close>

fun category_groups_loop :: "category_group list \<Rightarrow> pyval list \<Rightarrow> pyval list result" where
  "category_groups_loop [] category_groups = Inr category_groups"
| "category_groups_loop (grp # rest) category_groups =
     (case group_dict grp of
        Inl e \<Rightarrow> Inl e
      | Inr d \<Rightarrow> category_groups_loop rest (category_groups @ [VDict d]))"

definition get_categories_try :: "remote \<Rightarrow> pydict \<Rightarrow> pydict action" where
  "get_categories_try R args w =
     (let budget_id = get_budget_id w (arg args ''budget_id'')
      in bind_a get_ynab_client (\<lambda>api_client.
         bind_a (api_call R ''get_categories''
                   [(''budget_id'', budget_id),
                    (''last_knowledge_of_server'', arg args ''last_knowledge_of_server'')])
           (\<lambda>response.
              case response of
                CategoriesResponse groups server_knowledge \<Rightarrow>
                  bind_a (lift_a (category_groups_loop groups [])) (\<lambda>category_groups.
                    return_a
                      [(''category_groups'', VList category_groups),
                       (''server_knowledge'', server_knowledge)])
              | _ \<Rightarrow> raise_a (no_data_attribute ''category_groups''))) w)"

definition get_categories :: "remote \<Rightarrow> py_function" where
  "get_categories R =
     \<lparr>func_name = ''get_categories'',
      func_params =
        [Param ''budget_id'' (Some (VStr ''default'')),
         Param ''last_knowledge_of_server'' (Some VNone)],
      func_body = (\<lambda>args.
        try_except (get_categories_try R args) (error_result ''Error getting categories''))\<rparr>"

text \<open>The dictionary of \<open>get_category_by_id\<close>; \<open>get_month_category\<close> leaves out one key.\<close>

definition category_detail_dict :: "bool \<Rightarrow> category \<Rightarrow> pydict result" where
  "category_detail_dict with_creation_month cat =
     (case category_amounts cat of
        Inl e \<Rightarrow> Inl e
      | Inr amounts \<Rightarrow>
          Inr ([(''id'', c_id cat),
                (''category_group_id'', c_category_group_id cat),
                (''category_group_name'', c_category_group_name cat),
                (''name'', c_name cat),
                (''hidden'', c_hidden cat),
                (''note'', c_note cat)]
               @ amounts @
               [(''goal_type'', c_goal_type cat)]
               @ (if with_creation_month
                  then [(''goal_creation_month'', c_goal_creation_month cat)] else [])
               @ [(''goal_target'', c_goal_target cat),
                  (''goal_target_month'', c_goal_target_month cat),
                  (''goal_percentage_complete'', c_goal_percentage_complete cat),
                  (''deleted'', c_deleted cat)]))"

definition get_category_by_id_try :: "remote \<Rightarrow> pydict \<Rightarrow> pydict action" where
  "get_category_by_id_try R args w =
     (let budget_id = get_budget_id w (arg args ''budget_id'')
      in bind_a get_ynab_client (\<lambda>api_client.
         bind_a (api_call R ''get_category_by_id''
                   [(''budget_id'', budget_id), (''category_id'', arg args ''category_id'')])
           (\<lambda>response.
              case response of
                CategoryResponse cat \<Rightarrow> lift_a (category_detail_dict True cat)
              | _ \<Rightarrow> raise_a (no_data_attribute ''category''))) w)"

definition get_category_by_id :: "remote \<Rightarrow> py_function" where
  "get_category_by_id R =
     \<lparr>func_name = ''get_category_by_id'',
      func_params = [Param ''category_id'' None, Param ''budget_id'' (Some (VStr ''default''))],
      func_body = (\<lambda>args.
        try_except (get_category_by_id_try R args)
          (error_result (''Error getting category '' @ py_str (arg args ''category_id''))))\<rparr>"

definition get_month_category_try :: "remote \<Rightarrow> pydict \<Rightarrow> pydict action" where
  "get_month_category_try R args w =
     (let budget_id = get_budget_id w (arg args ''budget_id'')
      in bind_a get_ynab_client (\<lambda>api_client.
         bind_a (api_call R ''get_month_category_by_id''
                   [(''budget_id'', budget_id), (''month'', arg args ''month''),
                    (''category_id'', arg args ''category_id'')])
           (\<lambda>response.
              case response of
                CategoryResponse cat \<Rightarrow> lift_a (category_detail_dict False cat)
              | _ \<Rightarrow> raise_a (no_data_attribute ''category''))) w)"

definition get_month_category :: "remote \<Rightarrow> py_function" where
  "get_month_category R =
     \<lparr>func_name = ''get_month_category'',
      func_params =
        [Param ''category_id'' None, Param ''month'' None,
         Param ''budget_id'' (Some (VStr ''default''))],
      func_body = (\<lambda>args.
        try_except (get_month_category_try R args)
          (error_result (''Error getting month category '' @ py_str (arg args ''category_id'')
             @ '' for '' @ py_str (arg args ''month''))))\<rparr>"

text \<open>
  \<open>update_data\<close> of \<open>update_category\<close> and \<open>update_transaction\<close>: one
  \<^verbatim>\<open>if name is not None: update_data["name"] = name\<close> per field, in order.
\<close>

fun provided_fields :: "string list \<Rightarrow> pydict \<Rightarrow> pydict \<Rightarrow> pydict" where
  "provided_fields [] args update_data = update_data"
| "provided_fields (name # names) args update_data =
     (if arg args name \<noteq> VNone
      then provided_fields names args (update_data @ [(name, arg args name)])
      else provided_fields names args update_data)"

definition update_category_try :: "remote \<Rightarrow> pydict \<Rightarrow> pydict action" where
  "update_category_try R args w =
     (let budget_id = get_budget_id w (arg args ''budget_id'')
      in bind_a get_ynab_client (\<lambda>api_client.
         let update_data = provided_fields [''name'', ''note'', ''hidden''] args []
         in bind_a (api_call R ''update_category''
                   [(''budget_id'', budget_id), (''category_id'', arg args ''category_id''),
                    (''data'', VDict [(''category'', VDict update_data)])])
           (\<lambda>response.
              case response of
                CategoryResponse cat \<Rightarrow>
                  bind_a (lift_a (category_amounts cat)) (\<lambda>amounts.
                    return_a
                      ([(''id'', c_id cat), (''name'', c_name cat), (''hidden'', c_hidden cat),
                        (''note'', c_note cat)]
                       @ amounts @ [(''message'', VStr ''Category updated successfully'')]))
              | _ \<Rightarrow> raise_a (no_data_attribute ''category''))) w)"

definition update_category :: "remote \<Rightarrow> py_function" where
  "update_category R =
     \<lparr>func_name = ''update_category'',
      func_params =
        [Param ''category_id'' None, Param ''name'' (Some VNone), Param ''note'' (Some VNone),
         Param ''hidden'' (Some VNone), Param ''budget_id'' (Some (VStr ''default''))],
      func_body = (\<lambda>args.
        try_except (update_category_try R args)
          (error_result (''Error updating category '' @ py_str (arg args ''category_id''))))\<rparr>"

definition update_month_category_try :: "remote \<Rightarrow> pydict \<Rightarrow> pydict action" where
  "update_month_category_try R args w =
     (let budget_id = get_budget_id w (arg args ''budget_id'')
      in bind_a get_ynab_client (\<lambda>api_client.
         bind_a (api_call R ''update_month_category''
                   [(''budget_id'', budget_id), (''month'', arg args ''month''),
                    (''category_id'', arg args ''category_id''),
                    (''data'', VDict [(''category'', VDict [(''budgeted'', arg args ''budgeted'')])])])
           (\<lambda>response.
              case response of
                CategoryResponse cat \<Rightarrow>
                  bind_a (lift_a (category_amounts cat)) (\<lambda>amounts.
                    return_a
                      ([(''id'', c_id cat), (''name'', c_name cat), (''month'', arg args ''month'')]
                       @ amounts
                       @ [(''message'',
                           VStr (''Category budget updated for '' @ py_str (arg args ''month'')))]))
              | _ \<Rightarrow> raise_a (no_data_attribute ''category''))) w)"

definition update_month_category :: "remote \<Rightarrow> py_function" where
  "update_month_category R =
     \<lparr>func_name = ''update_month_category'',
      func_params =
        [Param ''category_id'' None, Param ''month'' None, Param ''budgeted'' None,
         Param ''budget_id'' (Some (VStr ''default''))],
      func_body = (\<lambda>args.
        try_except (update_month_category_try R args)
          (error_result (''Error updating month category '' @ py_str (arg args ''category_id'')
             @ '' for '' @ py_str (arg args ''month''))))\<rparr>"

definition get_category_balance_try :: "remote \<Rightarrow> pydict \<Rightarrow> pydict action" where
  "get_category_balance_try R args w =
     (let budget_id = get_budget_id w (arg args ''budget_id'')
      in bind_a get_ynab_client (\<lambda>api_client.
         bind_a (if py_truthy (arg args ''month'') then
                   api_call R ''get_month_category_by_id''
                     [(''budget_id'', budget_id), (''month'', arg args ''month''),
                      (''category_id'', arg args ''category_id'')]
                 else
                   api_call R ''get_category_by_id''
                     [(''budget_id'', budget_id), (''category_id'', arg args ''category_id'')])
           (\<lambda>response.
              case response of
                CategoryResponse cat \<Rightarrow>
                  bind_a (lift_a (category_amounts cat)) (\<lambda>amounts.
                  bind_a (lift_a (currency_formatted (c_balance cat))) (\<lambda>available_formatted.
                    return_a
                      ([(''category_name'', c_name cat),
                        (''month'', if py_truthy (arg args ''month'') then arg args ''month''
                                    else VStr ''current'')]
                       @ amounts
                       @ [(''available'', VInt (c_balance cat)),
                          (''available_formatted'', VStr available_formatted)])))
              | _ \<Rightarrow> raise_a (no_data_attribute ''category''))) w)"

definition get_category_balance :: "remote \<Rightarrow> py_function" where
  "get_category_balance R =
     \<lparr>func_name = ''get_category_balance'',
      func_params =
        [Param ''category_id'' None, Param ''month'' (Some VNone),
         Param ''budget_id'' (Some (VStr ''default''))],
      func_body = (\<lambda>args.
        try_except (get_category_balance_try R args)
          (error_result (''Error getting category balance for '' @ py_str (arg args ''category_id''))))\<rparr>"

section \<open>Payee tools (src/tools/payees.py)\<close>

definition payee_dict :: "payee \<Rightarrow> pydict" where
  "payee_dict payee =
     [(''id'', p_id payee),
      (''name'', VStr (p_name payee)),
      (''transfer_account_id'', p_transfer_account_id payee),
      (''deleted'', p_deleted payee)]"

definition location_dict :: "payee_location \<Rightarrow> pydict" where
  "location_dict location =
     [(''id'', l_id location),
      (''payee_id'', l_payee_id location),
      (''latitude'', l_latitude location),
      (''longitude'', l_longitude location),
      (''deleted'', l_deleted location)]"

text \<open>\<open>for payee in response.data.payees: payees_list.append({...})\<close>.\<close>

fun payees_loop :: "payee list \<Rightarrow> pyval list \<Rightarrow> pyval list" where
  "payees_loop [] payees_list = payees_list"
| "payees_loop (payee # rest) payees_list = payees_loop rest (payees_list @ [VDict (payee_dict payee)])"

fun locations_loop :: "payee_location list \<Rightarrow> pyval list \<Rightarrow> pyval list" where
  "locations_loop [] locations_list = locations_list"
| "locations_loop (location # rest) locations_list =
     locations_loop rest (locations_list @ [VDict (location_dict location)])"

definition get_payees_try :: "remote \<Rightarrow> pydict \<Rightarrow> pydict action" where
  "get_payees_try R args w =
     (let budget_id = get_budget_id w (arg args ''budget_id'')
      in bind_a get_ynab_client (\<lambda>api_client.
         bind_a (api_call R ''get_payees''
                   [(''budget_id'', budget_id),
                    (''last_knowledge_of_server'', arg args ''last_knowledge_of_server'')])
           (\<lambda>response.
              case response of
                PayeesResponse payees server_knowledge \<Rightarrow>
                  return_a
                    [(''payees'', VList (payees_loop payees [])),
                     (''server_knowledge'', server_knowledge)]
              | _ \<Rightarrow> raise_a (no_data_attribute ''payees''))) w)"

definition get_payees :: "remote \<Rightarrow> py_function" where
  "get_payees R =
     \<lparr>func_name = ''get_payees'',
      func_params =
        [Param ''budget_id'' (Some (VStr ''default'')),
         Param ''last_knowledge_of_server'' (Some VNone)],
      func_body = (\<lambda>args.
        try_except (get_payees_try R args) (error_result ''Error getting payees''))\<rparr>"

definition get_payee_by_id_try :: "remote \<Rightarrow> pydict \<Rightarrow> pydict action" where
  "get_payee_by_id_try R args w =
     (let budget_id = get_budget_id w (arg args ''budget_id'')
      in bind_a get_ynab_client (\<lambda>api_client.
         bind_a (api_call R ''get_payee_by_id''
                   [(''budget_id'', budget_id), (''payee_id'', arg args ''payee_id'')])
           (\<lambda>response.
              case response of
                PayeeResponse payee \<Rightarrow> return_a (payee_dict payee)
              | _ \<Rightarrow> raise_a (no_data_attribute ''payee''))) w)"

definition get_payee_by_id :: "remote \<Rightarrow> py_function" where
  "get_payee_by_id R =
     \<lparr>func_name = ''get_payee_by_id'',
      func_params = [Param ''payee_id'' None, Param ''budget_id'' (Some (VStr ''default''))],
      func_body = (\<lambda>args.
        try_except (get_payee_by_id_try R args)
          (error_result (''Error getting payee '' @ py_str (arg args ''payee_id''))))\<rparr>"

definition update_payee_try :: "remote \<Rightarrow> pydict \<Rightarrow> pydict action" where
  "update_payee_try R args w =
     (let budget_id = get_budget_id w (arg args ''budget_id'')
      in bind_a get_ynab_client (\<lambda>api_client.
         bind_a (api_call R ''update_payee''
                   [(''budget_id'', budget_id), (''payee_id'', arg args ''payee_id''),
                    (''data'', VDict [(''payee'', VDict [(''name'', arg args ''name'')])])])
           (\<lambda>response.
              case response of
                PayeeResponse payee \<Rightarrow>
                  return_a (payee_dict payee @ [(''message'', VStr ''Payee updated successfully'')])
              | _ \<Rightarrow> raise_a (no_data_attribute ''payee''))) w)"

definition update_payee :: "remote \<Rightarrow> py_function" where
  "update_payee R =
     \<lparr>func_name = ''update_payee'',
      func_params =
        [Param ''payee_id'' None, Param ''name'' None, Param ''budget_id'' (Some (VStr ''default''))],
      func_body = (\<lambda>args.
        try_except (update_payee_try R args)
          (error_result (''Error updating payee '' @ py_str (arg args ''payee_id''))))\<rparr>"

definition get_payee_locations_try :: "remote \<Rightarrow> pydict \<Rightarrow> pydict action" where
  "get_payee_locations_try R args w =
     (let budget_id = get_budget_id w (arg args ''budget_id'')
      in bind_a get_ynab_client (\<lambda>api_client.
         bind_a (api_call R ''get_payee_locations'' [(''budget_id'', budget_id)])
           (\<lambda>response.
              case response of
                PayeeLocationsResponse locations \<Rightarrow>
                  return_a [(''payee_locations'', VList (locations_loop locations []))]
              | _ \<Rightarrow> raise_a (no_data_attribute ''payee_locations''))) w)"

definition get_payee_locations :: "remote \<Rightarrow> py_function" where
  "get_payee_locations R =
     \<lparr>func_name = ''get_payee_locations'',
      func_params = [Param ''budget_id'' (Some (VStr ''default''))],
      func_body = (\<lambda>args.
        try_except (get_payee_locations_try R args) (error_result ''Error getting payee locations''))\<rparr>"

definition get_payee_location_by_id_try :: "remote \<Rightarrow> pydict \<Rightarrow> pydict action" where
  "get_payee_location_by_id_try R args w =
     (let budget_id = get_budget_id w (arg args ''budget_id'')
      in bind_a get_ynab_client (\<lambda>api_client.
         bind_a (api_call R ''get_payee_location_by_id''
                   [(''budget_id'', budget_id),
                    (''payee_location_id'', arg args ''payee_location_id'')])
           (\<lambda>response.
              case response of
                PayeeLocationResponse location \<Rightarrow> return_a (location_dict location)
              | _ \<Rightarrow> raise_a (no_data_attribute ''payee_location''))) w)"

definition get_payee_location_by_id :: "remote \<Rightarrow> py_function" where
  "get_payee_location_by_id R =
     \<lparr>func_name = ''get_payee_location_by_id'',
      func_params =
        [Param ''payee_location_id'' None, Param ''budget_id'' (Some (VStr ''default''))],
      func_body = (\<lambda>args.
        try_except (get_payee_location_by_id_try R args)
          (error_result (''Error getting payee location '' @ py_str (arg args ''payee_location_id''))))\<rparr>"

definition get_payee_locations_by_payee_try :: "remote \<Rightarrow> pydict \<Rightarrow> pydict action" where
  "get_payee_locations_by_payee_try R args w =
     (let budget_id = get_budget_id w (arg args ''budget_id'')
      in bind_a get_ynab_client (\<lambda>api_client.
         bind_a (api_call R ''get_payee_locations_by_payee''
                   [(''budget_id'', budget_id), (''payee_id'', arg args ''payee_id'')])
           (\<lambda>response.
              case response of
                PayeeLocationsResponse locations \<Rightarrow>
                  return_a
                    [(''payee_id'', arg args ''payee_id''),
                     (''locations'', VList (locations_loop locations []))]
              | _ \<Rightarrow> raise_a (no_data_attribute ''payee_locations''))) w)"

definition get_payee_locations_by_payee :: "remote \<Rightarrow> py_function" where
  "get_payee_locations_by_payee R =
     \<lparr>func_name = ''get_payee_locations_by_payee'',
      func_params = [Param ''payee_id'' None, Param ''budget_id'' (Some (VStr ''default''))],
      func_body = (\<lambda>args.
        try_except (get_payee_locations_by_payee_try R args)
          (error_result (''Error getting locations for payee '' @ py_str (arg args ''payee_id''))))\<rparr>"

text \<open>
  The loop of \<open>search_payees\<close>:
  \<^verbatim>\<open>
  search_lower = search_term.lower()
  matching_payees = []
  for payee in response.data.payees:
      if search_lower in payee.name.lower():
          matching_payees.append({...})
  \<close>
\<close>

fun search_loop :: "string \<Rightarrow> payee list \<Rightarrow> pyval list \<Rightarrow> pyval list" where
  "search_loop search_lower [] matching_payees = matching_payees"
| "search_loop search_lower (payee # rest) matching_payees =
     (if str_contains search_lower (str_lower (p_name payee))
      then search_loop search_lower rest (matching_payees @ [VDict (payee_dict payee)])
      else search_loop search_lower rest matching_payees)"

definition search_payees_try :: "remote \<Rightarrow> pydict \<Rightarrow> pydict action" where
  "search_payees_try R args w =
     (let budget_id = get_budget_id w (arg args ''budget_id'')
      in bind_a get_ynab_client (\<lambda>api_client.
         bind_a (api_call R ''get_payees'' [(''budget_id'', budget_id)])
           (\<lambda>response.
              case response of
                PayeesResponse payees server_knowledge \<Rightarrow>
                  bind_a (lift_a (py_lower (arg args ''search_term''))) (\<lambda>search_lower.
                    (let matching_payees = search_loop search_lower payees []
                     in return_a
                          [(''search_term'', arg args ''search_term''),
                           (''matches'', VList matching_payees),
                           (''count'', VInt (int (length matching_payees)))]))
              | _ \<Rightarrow> raise_a (no_data_attribute ''payees''))) w)"

definition search_payees :: "remote \<Rightarrow> py_function" where
  "search_payees R =
     \<lparr>func_name = ''search_payees'',
      func_params = [Param ''search_term'' None, Param ''budget_id'' (Some (VStr ''default''))],
      func_body = (\<lambda>args.
        try_except (search_payees_try R args) (error_result ''Error searching payees''))\<rparr>"

section \<open>Transaction tools (src/tools/transactions.py)\<close>

text \<open>The dictionary of \<open>get_transactions\<close> and \<open>get_transaction_by_id\<close>.\<close>

definition transaction_dict :: "txn \<Rightarrow> pydict result" where
  "transaction_dict trn =
     (case currency_formatted (t_amount trn) of
        Inl e \<Rightarrow> Inl e
      | Inr amount_formatted \<Rightarrow>
          Inr [(''id'', t_id trn),
               (''date'', opt_str (t_var_date trn)),
               (''amount'', VInt (t_amount trn)),
               (''amount_formatted'', VStr amount_formatted),
               (''memo'', t_memo trn),
               (''cleared'', t_cleared trn),
               (''approved'', t_approved trn),
               (''flag_color'', t_flag_color trn),
               (''account_id'', t_account_id trn),
               (''account_name'', t_account_name trn),
               (''payee_id'', t_payee_id trn),
               (''payee_name'', t_payee_name trn),
               (''category_id'', t_category_id trn),
               (''category_name'', t_category_name trn),
               (''transfer_account_id'', t_transfer_account_id trn),
               (''import_id'', t_import_id trn),
               (''deleted'', t_deleted trn),
               (''subtransactions'', t_subtransactions trn)])"

text \<open>The dictionary of \<open>create_transaction\<close> and \<open>update_transaction\<close>.\<close>

definition saved_transaction_dict :: "txn \<Rightarrow> string \<Rightarrow> pydict result" where
  "saved_transaction_dict trn message =
     (case currency_formatted (t_amount trn) of
        Inl e \<Rightarrow> Inl e
      | Inr amount_formatted \<Rightarrow>
          Inr [(''id'', t_id trn),
               (''date'', opt_str (t_var_date trn)),
               (''amount'', VInt (t_amount trn)),
               (''amount_formatted'', VStr amount_formatted),
               (''payee_name'', t_payee_name trn),
               (''category_name'', t_category_name trn),
               (''memo'', t_memo trn),
               (''cleared'', t_cleared trn),
               (''approved'', t_approved trn),
               (''message'', VStr message)])"

fun transactions_loop :: "txn list \<Rightarrow> pyval list \<Rightarrow> pyval list result" where
  "transactions_loop [] transactions_list = Inr transactions_list"
| "transactions_loop (trn # rest) transactions_list =
     (case transaction_dict trn of
        Inl e \<Rightarrow> Inl e
      | Inr d \<Rightarrow> transactions_loop rest (transactions_list @ [VDict d]))"

definition get_transactions_try :: "remote \<Rightarrow> pydict \<Rightarrow> pydict action" where
  "get_transactions_try R args w =
     (let budget_id = get_budget_id w (arg args ''budget_id'')
      in bind_a get_ynab_client (\<lambda>api_client.
         bind_a (api_call R ''get_transactions''
                   [(''budget_id'', budget_id),
                    (''since_date'', arg args ''since_date''),
                    (''type'', arg args ''type''),
                    (''last_knowledge_of_server'', arg args ''last_knowledge_of_server'')])
           (\<lambda>response.
              case response of
                TransactionsResponse transactions server_knowledge \<Rightarrow>
                  bind_a (lift_a (transactions_loop transactions [])) (\<lambda>transactions_list.
                    return_a
                      [(''transactions'', VList transactions_list),
                       (''server_knowledge'', server_knowledge)])
              | _ \<Rightarrow> raise_a (no_data_attribute ''transactions''))) w)"

definition get_transactions :: "remote \<Rightarrow> py_function" where
  "get_transactions R =
     \<lparr>func_name = ''get_transactions'',
      func_params =
        [Param ''budget_id'' (Some (VStr ''default'')), Param ''since_date'' (Some VNone),
         Param ''type'' (Some VNone), Param ''last_knowledge_of_server'' (Some VNone)],
      func_body = (\<lambda>args.
        try_except (get_transactions_try R args) (error_result ''Error getting transactions''))\<rparr>"

definition get_transaction_by_id_try :: "remote \<Rightarrow> pydict \<Rightarrow> pydict action" where
  "get_transaction_by_id_try R args w =
     (let budget_id = get_budget_id w (arg args ''budget_id'')
      in bind_a get_ynab_client (\<lambda>api_client.
         bind_a (api_call R ''get_transaction_by_id''
                   [(''budget_id'', budget_id), (''transaction_id'', arg args ''transaction_id'')])
           (\<lambda>response.
              case response of
                TransactionResponse trn \<Rightarrow> lift_a (transaction_dict trn)
              | _ \<Rightarrow> raise_a (no_data_attribute ''transaction''))) w)"

definition get_transaction_by_id :: "remote \<Rightarrow> py_function" where
  "get_transaction_by_id R =
     \<lparr>func_name = ''get_transaction_by_id'',
      func_params = [Param ''transaction_id'' None, Param ''budget_id'' (Some (VStr ''default''))],
      func_body = (\<lambda>args.
        try_except (get_transaction_by_id_try R args)
          (error_result (''Error getting transaction '' @ py_str (arg args ''transaction_id''))))\<rparr>"

definition cleared_values :: "string list" where
  "cleared_values = [''cleared'', ''uncleared'', ''reconciled'']"

definition valid_flags :: "string list" where
  "valid_flags = [''red'', ''orange'', ''yellow'', ''green'', ''blue'', ''purple'']"

text \<open>The ten fields \<open>create_transaction\<close> and \<open>update_transaction\<close> can set.\<close>

definition transaction_fields :: "string list" where
  "transaction_fields =
     [''account_id'', ''amount'', ''date'', ''payee_name'', ''payee_id'', ''category_id'',
      ''cleared'', ''approved'', ''memo'', ''flag_color'']"

text \<open>
  \<^verbatim>\<open>
  if cleared not in ["cleared", "uncleared", "reconciled"]:
      return {"error": "cleared must be 'cleared', 'uncleared', or 'reconciled'"}
  valid_flags = ["red", "orange", "yellow", "green", "blue", "purple"]
  if flag_color and flag_color not in valid_flags:
      return {"error": f"flag_color must be one of: {', '.join(valid_flags)}"}
  \<close>
\<close>

definition create_transaction_try :: "remote \<Rightarrow> pydict \<Rightarrow> pydict action" where
  "create_transaction_try R args w =
     (let budget_id = get_budget_id w (arg args ''budget_id'')
      in if arg args ''cleared'' \<notin> VStr ` set cleared_values then
           return_a
             [(''error'', VStr (''cleared must be '' @ str_repr ''cleared'' @ '', ''
                 @ str_repr ''uncleared'' @ '', or '' @ str_repr ''reconciled''))] w
         else if py_truthy (arg args ''flag_color'')
                 \<and> arg args ''flag_color'' \<notin> VStr ` set valid_flags then
           return_a
             [(''error'', VStr (''flag_color must be one of: '' @ join '', '' valid_flags))] w
         else
           bind_a get_ynab_client (\<lambda>api_client.
           bind_a (api_call R ''create_transaction''
                     [(''budget_id'', budget_id),
                      (''data'', VDict [(''transaction'',
                         VDict (map (\<lambda>name. (name, arg args name)) transaction_fields))])])
             (\<lambda>response.
                case response of
                  SaveTransactionsResponse transaction duplicate_import_ids \<Rightarrow>
                    (case transaction of
                       Some trn \<Rightarrow>
                         lift_a (saved_transaction_dict trn ''Transaction created successfully'')
                     | None \<Rightarrow>
                         return_a
                           [(''message'', VStr ''Transaction created''),
                            (''duplicate_import_ids'', duplicate_import_ids)])
                | _ \<Rightarrow> raise_a (no_data_attribute ''transaction''))) w)"

definition create_transaction :: "remote \<Rightarrow> py_function" where
  "create_transaction R =
     \<lparr>func_name = ''create_transaction'',
      func_params =
        [Param ''account_id'' None, Param ''amount'' None, Param ''date'' None,
         Param ''payee_name'' (Some VNone), Param ''payee_id'' (Some VNone),
         Param ''category_id'' (Some VNone), Param ''cleared'' (Some (VStr ''uncleared'')),
         Param ''approved'' (Some (VBool False)), Param ''memo'' (Some VNone),
         Param ''flag_color'' (Some VNone), Param ''budget_id'' (Some (VStr ''default''))],
      func_body = (\<lambda>args.
        try_except (create_transaction_try R args) (error_result ''Error creating transaction''))\<rparr>"

text \<open>
  \<open>update_transaction\<close> builds \<open>update_data\<close> from the parameters that are not
  \<open>None\<close> (\<open>provided_fields\<close>) and hands it to the client library as
  \<^verbatim>\<open>PutTransactionWrapper(transaction=SaveTransactionWithOptionalFields(**update_data))\<close>.
  The source has no check of \<open>cleared\<close> or \<open>flag_color\<close> here.
\<close>

definition update_transaction_try :: "remote \<Rightarrow> pydict \<Rightarrow> pydict action" where
  "update_transaction_try R args w =
     (let budget_id = get_budget_id w (arg args ''budget_id'')
      in bind_a get_ynab_client (\<lambda>api_client.
         let update_data = provided_fields transaction_fields args []
         in bind_a (api_call R ''update_transaction''
                   [(''budget_id'', budget_id),
                    (''transaction_id'', arg args ''transaction_id''),
                    (''data'', VDict [(''transaction'', VDict update_data)])])
           (\<lambda>response.
              case response of
                TransactionResponse trn \<Rightarrow>
                  lift_a (saved_transaction_dict trn ''Transaction updated successfully'')
              | _ \<Rightarrow> raise_a (no_data_attribute ''transaction''))) w)"

definition update_transaction :: "remote \<Rightarrow> py_function" where
  "update_transaction R =
     \<lparr>func_name = ''update_transaction'',
      func_params =
        [Param ''transaction_id'' None, Param ''account_id'' (Some VNone),
         Param ''amount'' (Some VNone), Param ''date'' (Some VNone),
         Param ''payee_name'' (Some VNone), Param ''payee_id'' (Some VNone),
         Param ''category_id'' (Some VNone), Param ''cleared'' (Some VNone),
         Param ''approved'' (Some VNone), Param ''memo'' (Some VNone),
         Param ''flag_color'' (Some VNone), Param ''budget_id'' (Some (VStr ''default''))],
      func_body = (\<lambda>args.
        try_except (update_transaction_try R args)
          (error_result (''Error updating transaction '' @ py_str (arg args ''transaction_id''))))\<rparr>"

definition delete_transaction_try :: "remote \<Rightarrow> pydict \<Rightarrow> pydict action" where
  "delete_transaction_try R args w =
     (let budget_id = get_budget_id w (arg args ''budget_id'')
      in bind_a get_ynab_client (\<lambda>api_client.
         bind_a (api_call R ''delete_transaction''
                   [(''budget_id'', budget_id), (''transaction_id'', arg args ''transaction_id'')])
           (\<lambda>response.
              case response of
                TransactionResponse trn \<Rightarrow>
                  return_a
                    [(''id'', t_id trn),
                     (''deleted'', VBool True),
                     (''message'',
                      VStr (''Transaction '' @ py_str (t_id trn) @ '' deleted successfully''))]
              | _ \<Rightarrow> raise_a (no_data_attribute ''transaction''))) w)"

definition delete_transaction :: "remote \<Rightarrow> py_function" where
  "delete_transaction R =
     \<lparr>func_name = ''delete_transaction'',
      func_params = [Param ''transaction_id'' None, Param ''budget_id'' (Some (VStr ''default''))],
      func_body = (\<lambda>args.
        try_except (delete_transaction_try R args)
          (error_result (''Error deleting transaction '' @ py_str (arg args ''transaction_id''))))\<rparr>"

definition import_transactions_try :: "remote \<Rightarrow> pydict \<Rightarrow> pydict action" where
  "import_transactions_try R args w =
     (let budget_id = get_budget_id w (arg args ''budget_id'')
      in bind_a get_ynab_client (\<lambda>api_client.
         bind_a (api_call R ''import_transactions'' [(''budget_id'', budget_id)])
           (\<lambda>response.
              case response of
                TransactionsImportResponse transaction_ids \<Rightarrow>
                  (let count = (case transaction_ids of
                                  None \<Rightarrow> 0
                                | Some ids \<Rightarrow> if ids \<noteq> [] then int (length ids) else 0)
                   in return_a
                        [(''transaction_ids'',
                          (case transaction_ids of None \<Rightarrow> VNone | Some ids \<Rightarrow> VList ids)),
                         (''count'', VInt count),
                         (''message'', VStr (''Imported '' @ int_repr count @ '' transactions''))])
              | _ \<Rightarrow> raise_a (no_data_attribute ''transaction_ids''))) w)"

definition import_transactions :: "remote \<Rightarrow> py_function" where
  "import_transactions R =
     \<lparr>func_name = ''import_transactions'',
      func_params = [Param ''budget_id'' (Some (VStr ''default''))],
      func_body = (\<lambda>args.
        try_except (import_transactions_try R args) (error_result ''Error importing transactions''))\<rparr>"

section \<open>Budget tools (ynab\_mcp\_server/tools/budgets.py)\<close>

definition currency_format_dict :: "currency_format option \<Rightarrow> pyval" where
  "currency_format_dict x =
     (case x of
        None \<Rightarrow> VNone
      | Some cf \<Rightarrow>
          VDict [(''iso_code'', cf_iso_code cf),
                 (''example_format'', cf_example_format cf),
                 (''decimal_digits'', cf_decimal_digits cf),
                 (''decimal_separator'', cf_decimal_separator cf),
                 (''symbol_first'', cf_symbol_first cf),
                 (''group_separator'', cf_group_separator cf),
                 (''currency_symbol'', cf_currency_symbol cf),
                 (''display_symbol'', cf_display_symbol cf)])"

definition summary_account_dict :: "account \<Rightarrow> pydict" where
  "summary_account_dict acc =
     [(''id'', a_id acc),
      (''name'', a_name acc),
      (''type'', a_type acc),
      (''on_budget'', a_on_budget acc),
      (''closed'', VBool (a_closed acc)),
      (''balance'', VInt (a_balance acc)),
      (''cleared_balance'', VInt (a_cleared_balance acc)),
      (''uncleared_balance'', VInt (a_uncleared_balance acc))]"

definition budget_summary_dict :: "pyval \<Rightarrow> budget_summary \<Rightarrow> pydict" where
  "budget_summary_dict include_accounts budget =
     [(''id'', b_id budget),
      (''name'', b_name budget),
      (''last_modified_on'', opt_str (b_last_modified_on budget)),
      (''date_format'',
       (case b_date_format budget of None \<Rightarrow> VNone | Some df \<Rightarrow> df_format df)),
      (''currency_format'', currency_format_dict (b_currency_format budget))]
     @ (case b_accounts budget of
          None \<Rightarrow> []
        | Some accounts \<Rightarrow>
            if py_truthy include_accounts \<and> accounts \<noteq> []
            then [(''accounts'', VList (map (\<lambda>acc. VDict (summary_account_dict acc)) accounts))]
            else [])"

fun budgets_loop :: "pyval \<Rightarrow> budget_summary list \<Rightarrow> pyval list \<Rightarrow> pyval list" where
  "budgets_loop include_accounts [] budgets_list = budgets_list"
| "budgets_loop include_accounts (budget # rest) budgets_list =
     budgets_loop include_accounts rest
       (budgets_list @ [VDict (budget_summary_dict include_accounts budget)])"

definition get_budgets_try :: "remote \<Rightarrow> pydict \<Rightarrow> pydict action" where
  "get_budgets_try R args =
     bind_a get_ynab_client (\<lambda>api_client.
     bind_a (api_call R ''get_budgets'' [(''include_accounts'', arg args ''include_accounts'')])
       (\<lambda>response.
          case response of
            BudgetsResponse budgets default_budget \<Rightarrow>
              return_a
                [(''budgets'', VList (budgets_loop (arg args ''include_accounts'') budgets [])),
                 (''default_budget'',
                  (case default_budget of None \<Rightarrow> VNone | Some b \<Rightarrow> b_id b))]
          | _ \<Rightarrow> raise_a (no_data_attribute ''budgets'')))"

definition get_budgets :: "remote \<Rightarrow> py_function" where
  "get_budgets R =
     \<lparr>func_name = ''get_budgets'',
      func_params = [Param ''include_accounts'' (Some (VBool False))],
      func_body = (\<lambda>args.
        try_except (get_budgets_try R args) (error_result ''Error getting budgets''))\<rparr>"

definition detail_account_dict :: "account \<Rightarrow> pydict" where
  "detail_account_dict acc =
     summary_account_dict acc
     @ [(''transfer_payee_id'', a_transfer_payee_id acc), (''deleted'', VBool (a_deleted acc))]"

definition detail_category_dict :: "category \<Rightarrow> pydict" where
  "detail_category_dict cat =
     [(''id'', c_id cat),
      (''name'', c_name cat),
      (''hidden'', c_hidden cat),
      (''note'', c_note cat),
      (''budgeted'', VInt (c_budgeted cat)),
      (''activity'', VInt (c_activity cat)),
      (''balance'', VInt (c_balance cat)),
      (''deleted'', c_deleted cat)]"

definition detail_group_dict :: "category_group \<Rightarrow> pydict" where
  "detail_group_dict grp =
     [(''id'', g_id grp),
      (''name'', g_name grp),
      (''hidden'', g_hidden grp),
      (''deleted'', g_deleted grp),
      (''categories'',
       VList (map (\<lambda>cat. VDict (detail_category_dict cat))
                (case g_categories grp of None \<Rightarrow> [] | Some cats \<Rightarrow> cats)))]"

definition month_dict :: "month_summary \<Rightarrow> pydict" where
  "month_dict m =
     [(''month'', m_month m),
      (''income'', m_income m),
      (''budgeted'', m_budgeted m),
      (''activity'', m_activity m),
      (''to_be_budgeted'', m_to_be_budgeted m),
      (''deleted'', m_deleted m)]"

text \<open>\<^verbatim>\<open>if budget.accounts: budget_dict["accounts"] = [... for acc in budget.accounts]\<close>.\<close>

definition optional_list :: "string \<Rightarrow> ('a \<Rightarrow> pydict) \<Rightarrow> 'a list option \<Rightarrow> pydict" where
  "optional_list key to_dict xs =
     (case xs of
        None \<Rightarrow> []
      | Some items \<Rightarrow> if items \<noteq> [] then [(key, VList (map (\<lambda>x. VDict (to_dict x)) items))] else [])"

definition budget_detail_dict :: "budget_detail \<Rightarrow> pyval \<Rightarrow> pydict" where
  "budget_detail_dict budget server_knowledge =
     [(''id'', bd_id budget),
      (''name'', bd_name budget),
      (''last_modified_on'', opt_str (bd_last_modified_on budget)),
      (''server_knowledge'', server_knowledge)]
     @ optional_list ''accounts'' detail_account_dict (bd_accounts budget)
     @ optional_list ''category_groups'' detail_group_dict (bd_category_groups budget)
     @ optional_list ''payees'' payee_dict (bd_payees budget)
     @ optional_list ''months'' month_dict (bd_months budget)"

definition get_budget_by_id_try :: "remote \<Rightarrow> pydict \<Rightarrow> pydict action" where
  "get_budget_by_id_try R args w =
     (let budget_id = get_budget_id w (arg args ''budget_id'')
      in bind_a get_ynab_client (\<lambda>api_client.
         bind_a (api_call R ''get_budget_by_id''
                   [(''budget_id'', budget_id),
                    (''last_knowledge_of_server'', arg args ''last_knowledge_of_server'')])
           (\<lambda>response.
              case response of
                BudgetDetailResponse budget server_knowledge \<Rightarrow>
                  return_a (budget_detail_dict budget server_knowledge)
              | _ \<Rightarrow> raise_a (no_data_attribute ''budget''))) w)"

text \<open>
  The handlers of budgets.py format the reassigned \<open>budget_id\<close>, that is the
  resolved one.
\<close>

definition get_budget_by_id :: "remote \<Rightarrow> py_function" where
  "get_budget_by_id R =
     \<lparr>func_name = ''get_budget_by_id'',
      func_params = [Param ''budget_id'' None, Param ''last_knowledge_of_server'' (Some VNone)],
      func_body = (\<lambda>args w.
        try_except (get_budget_by_id_try R args)
          (error_result (''Error getting budget ''
             @ py_str (get_budget_id w (arg args ''budget_id'')))) w)\<rparr>"

definition get_budget_settings_try :: "remote \<Rightarrow> pydict \<Rightarrow> pydict action" where
  "get_budget_settings_try R args w =
     (let budget_id = get_budget_id w (arg args ''budget_id'')
      in bind_a get_ynab_client (\<lambda>api_client.
         bind_a (api_call R ''get_budget_settings_by_id'' [(''budget_id'', budget_id)])
           (\<lambda>response.
              case response of
                BudgetSettingsResponse settings \<Rightarrow>
                  return_a
                    [(''date_format'',
                      (case s_date_format settings of
                         None \<Rightarrow> VNone
                       | Some df \<Rightarrow> VDict [(''format'', df_format df)])),
                     (''currency_format'', currency_format_dict (s_currency_format settings))]
              | _ \<Rightarrow> raise_a (no_data_attribute ''settings''))) w)"

definition get_budget_settings :: "remote \<Rightarrow> py_function" where
  "get_budget_settings R =
     \<lparr>func_name = ''get_budget_settings'',
      func_params = [Param ''budget_id'' None],
      func_body = (\<lambda>args w.
        try_except (get_budget_settings_try R args)
          (error_result (''Error getting budget settings for ''
             @ py_str (get_budget_id w (arg args ''budget_id'')))) w)\<rparr>"

section \<open>User tools (ynab\_mcp\_server/tools/user.py)\<close>

definition get_user_try :: "remote \<Rightarrow> pydict \<Rightarrow> pydict action" where
  "get_user_try R args =
     bind_a get_ynab_client (\<lambda>api_client.
     bind_a (api_call R ''get_user'' [])
       (\<lambda>response.
          case response of
            UserResponse user \<Rightarrow>
              return_a
                [(''id'', u_id user),
                 (''name'', (case u_name user of Some n \<Rightarrow> n | None \<Rightarrow> VNone)),
                 (''message'', VStr ''User information retrieved successfully'')]
          | _ \<Rightarrow> raise_a (no_data_attribute ''user'')))"

definition get_user :: "remote \<Rightarrow> py_function" where
  "get_user R =
     \<lparr>func_name = ''get_user'',
      func_params = [],
      func_body = (\<lambda>args.
        try_except (get_user_try R args) (error_result ''Error getting user information''))\<rparr>"

definition verify_api_key_try :: "remote \<Rightarrow> pydict \<Rightarrow> pydict action" where
  "verify_api_key_try R args =
     bind_a get_ynab_client (\<lambda>api_client.
     bind_a (api_call R ''get_user'' [])
       (\<lambda>response.
          case response of
            UserResponse user \<Rightarrow>
              return_a
                [(''valid'', VBool True),
                 (''user_id'', u_id user),
                 (''message'', VStr ''API key is valid and authenticated'')]
          | _ \<Rightarrow> raise_a (no_data_attribute ''user'')))"

definition verify_api_key :: "remote \<Rightarrow> py_function" where
  "verify_api_key R =
     \<lparr>func_name = ''verify_api_key'',
      func_params = [],
      func_body = (\<lambda>args.
        try_except (verify_api_key_try R args)
          (\<lambda>e w.
             (Inr [(''valid'', VBool False),
                   (''error'', VStr (exn_str e)),
                   (''message'', VStr ''API key verification failed. Please check your YNAB_API_KEY environment variable.'')],
              logger_log ''ERROR'' (''API key verification failed: '' @ exn_str e) w)))\<rparr>"

section \<open>The registered tools\<close>

text \<open>
  A tool is registered with the decorator \<open>@log_tool_call\<close> under \<open>@mcp.tool()\<close>,
  or with \<open>@mcp.tool()\<close> alone.  \<open>register_tools\<close> of server.py registers the
  modules in this order; the tools of payees.py carry no \<open>@log_tool_call\<close>.
\<close>

datatype registration = Logged py_function | Plain py_function

definition registered_tools :: "remote \<Rightarrow> registration list" where
  "registered_tools R =
     [Logged (get_budgets R), Logged (get_budget_by_id R), Logged (get_budget_settings R),
      Logged (get_accounts R), Logged (get_account_by_id R), Logged (create_account R),
      Logged (get_account_balance R),
      Logged (get_transactions R), Logged (get_transaction_by_id R),
      Logged (create_transaction R), Logged (update_transaction R),
      Logged (delete_transaction R), Logged (import_transactions R),
      Logged (get_categories R), Logged (get_category_by_id R), Logged (get_month_category R),
      Logged (update_category R), Logged (update_month_category R),
      Logged (get_category_balance R),
      Plain (get_payees R), Plain (get_payee_by_id R), Plain (update_payee R),
      Plain (get_payee_locations R), Plain (get_payee_location_by_id R),
      Plain (get_payee_locations_by_payee R), Plain (search_payees R),
      Logged (get_user R), Logged (verify_api_key R)]"

definition tool_function :: "registration \<Rightarrow> py_function" where
  "tool_function t = (case t of Logged f \<Rightarrow> f | Plain f \<Rightarrow> f)"

text \<open>One invocation of a registered tool by the protocol runtime.\<close>

definition invoke ::
  "registration \<Rightarrow> pyval list \<Rightarrow> pydict \<Rightarrow> debug_state \<times> world \<Rightarrow> pydict result \<times> debug_state \<times> world" where
  "invoke t args kwargs = (\<lambda>(d, w).
     case t of
       Logged f \<Rightarrow> log_tool_call f args kwargs (d, w)
     | Plain f \<Rightarrow> (case py_call f args kwargs w of (r, w') \<Rightarrow> (r, d, w')))"

section \<open>Specification-side notions and test doubles\<close>


text \<open>
  Notions for the error handling of the tools.  An action is silent when it
  makes no call into the client library; a handler reports an error when it
  returns a mapping whose key \<open>error\<close> holds \<open>str(e)\<close> and makes no call; a
  tool body is safe when it always returns a mapping, makes at most one call,
  and returns such an error mapping when that call raised.
\<close>

definition silent :: "'a action \<Rightarrow> bool" where
  "silent m = (\<forall>w. calls (snd (m w)) = calls w)"

definition reports_error :: "(py_exception \<Rightarrow> pydict action) \<Rightarrow> bool" where
  "reports_error h =
     (\<forall>e w. \<exists>result w'. h e w = (Inr result, w')
        \<and> map_of result ''error'' = Some (VStr (exn_str e)) \<and> calls w' = calls w)"

definition tool_safe :: "(pydict \<Rightarrow> pydict action) \<Rightarrow> bool" where
  "tool_safe body =
     (\<forall>args w. \<exists>result w'. body args w = (Inr result, w')
        \<and> (calls w' = calls w
             \<or> (\<exists>ev. calls w' = calls w @ [ev]
                   \<and> (\<forall>e. api_raised ev = Some e \<longrightarrow>
                          map_of result ''error'' = Some (VStr (exn_str e))))))"

text \<open>
  Notions for the formatted companions.  The monetary fields that the category
  tools, the transaction tools and \<open>get_account_balance\<close> put into their
  mappings; a mapping has its companions when every such field it holds comes
  with \<open><field>_formatted\<close>, computed from the field by \<open>currency_formatted\<close>.
\<close>

definition monetary_fields :: "string list" where
  "monetary_fields =
     [''budgeted'', ''activity'', ''balance'', ''available'', ''amount'',
      ''cleared_balance'', ''uncleared_balance'']"

definition has_companions :: "pydict \<Rightarrow> bool" where
  "has_companions d =
     (\<forall>f \<in> set monetary_fields. \<forall>v. map_of d f = Some (VInt v) \<longrightarrow>
        (\<exists>s. currency_formatted v = Inr s \<and> map_of d (f @ ''_formatted'') = Some (VStr s)))"

definition dicts_have_companions :: "pyval list \<Rightarrow> bool" where
  "dicts_have_companions items = (\<forall>x \<in> set items. \<forall>d. x = VDict d \<longrightarrow> has_companions d)"

definition flat_formatted_tools :: "remote \<Rightarrow> py_function list" where
  "flat_formatted_tools R =
     [get_account_balance R, get_category_by_id R, get_month_category R, update_category R,
      update_month_category R, get_category_balance R, get_transaction_by_id R,
      create_transaction R, update_transaction R]"

definition groups_have_companions :: "pyval list \<Rightarrow> bool" where
  "groups_have_companions groups =
     (\<forall>g \<in> set groups. \<forall>d cats. g = VDict d \<longrightarrow> map_of d ''categories'' = Some (VList cats) \<longrightarrow>
        dicts_have_companions cats)"

text \<open>
  A remote stub for concrete runs of the tools: it knows three payees, one
  account, one category and one transaction, echoes the account it is asked to
  create, and answers every other call with an API error.
\<close>

definition sample_account :: account where
  "sample_account =
     Account (VStr ''a1'') (VStr ''Checking'') (VStr ''checking'') (VBool True) False VNone
       10500 10000 500 (VStr ''tp1'') (VBool False) (VBool False) False"

definition sample_category :: category where
  "sample_category =
     Category (VStr ''c1'') (VStr ''g1'') (VStr ''Bills'') (VStr ''Rent'') (VBool False) VNone
       1200000 (- 1200000) 0 (VStr ''TB'') VNone (VInt 1200000) VNone (VInt 100) (VBool False)"

definition sample_transaction :: txn where
  "sample_transaction =
     Transaction (VStr ''t1'') (Some ''2024-01-15'') (- 10500) (VStr ''lunch'') (VStr ''cleared'')
       (VBool True) VNone (VStr ''a1'') (VStr ''Checking'') (VStr ''p1'')
       (VStr ''Blue Bottle Coffee'') (VStr ''c1'') (VStr ''Rent'') VNone VNone (VBool False)
       (VList [])"

definition echoed_account :: "pydict \<Rightarrow> api_response result" where
  "echoed_account kwargs =
     (case map_of kwargs ''data'' of
        Some (VDict [(k, VDict [(k1, name), (k2, type), (k3, VInt balance)])]) \<Rightarrow>
          Inr (AccountResponse
            (Account (VStr ''a2'') name type (VBool True) False VNone balance balance 0
               VNone (VBool False) (VBool False) False))
      | _ \<Rightarrow> Inl (PyException ''ApiException'' ''(400) Bad Request''))"

definition stub_remote :: remote where
  "stub_remote trace method kwargs =
     (if method = ''get_payees'' then
        Inr (PayeesResponse
          [Payee (VStr ''p1'') ''Blue Bottle Coffee'' VNone (VBool False),
           Payee (VStr ''p2'') ''Grocery'' VNone (VBool False),
           Payee (VStr ''p3'') ''COFFEE shop'' VNone (VBool False)] (VInt 7))
      else if method = ''get_accounts'' then Inr (AccountsResponse [sample_account] (VInt 7))
      else if method = ''get_account_by_id'' then Inr (AccountResponse sample_account)
      else if method = ''create_account'' then echoed_account kwargs
      else if method = ''get_category_by_id'' then Inr (CategoryResponse sample_category)
      else if method = ''get_transaction_by_id'' \<or> method = ''update_transaction''
        then Inr (TransactionResponse sample_transaction)
      else Inl (PyException ''ApiException'' ''(404) Not Found''))"

text \<open>The state of a process that has its API key and has done nothing yet.\<close>

definition ready :: world where
  "ready = process_start [''YNAB_API_KEY'' \<mapsto> ''k'']"

definition logging_on :: debug_state where
  "logging_on = \<lparr>LOGGING_ENABLED = True, stderr = []\<rparr>"

definition logging_off :: debug_state where
  "logging_off = \<lparr>LOGGING_ENABLED = False, stderr = []\<rparr>"

section \<open>Theorems\<close>

subsection \<open>Milliunits as currency strings\<close>

lemma round_half_even_bounds:
  assumes "0 < b"
  shows "2 * (b * round_half_even a b - a) \<le> b" and "- b \<le> 2 * (b * round_half_even a b - a)"
proof -
  define q where "q = a div b"
  define r where "r = a mod b"
  have bq: "b * q = a - r" by (simp add: q_def r_def minus_mod_eq_mult_div)
  have rr: "0 \<le> r" "r < b" using assms by (simp_all add: r_def)
  have rhe: "round_half_even a b =
      (if 2 * r < b then q else if b < 2 * r then q + 1 else if even q then q else q + 1)"
    by (simp add: round_half_even_def Let_def q_def r_def)
  consider (down) "round_half_even a b = q" "2 * r \<le> b"
    | (up) "round_half_even a b = q + 1" "b \<le> 2 * r"
  proof (cases "2 * r < b")
    case True
    then show ?thesis using that(1) rhe by simp
  next
    case False
    show ?thesis
    proof (cases "b < 2 * r")
      case True
      then show ?thesis using that(2) rhe by simp
    next
      case nb: False
      with False have "2 * r = b" by simp
      then show ?thesis using that rhe by (cases "even q") simp_all
    qed
  qed
  then have "2 * (b * round_half_even a b - a) \<le> b \<and> - b \<le> 2 * (b * round_half_even a b - a)"
  proof cases
    case down
    then show ?thesis using rr bq by (simp add: algebra_simps)
  next
    case up
    then show ?thesis using rr bq by (simp add: algebra_simps)
  qed
  then show "2 * (b * round_half_even a b - a) \<le> b" and "- b \<le> 2 * (b * round_half_even a b - a)"
    by simp_all
qed

lemma bit_length_le: "n < 2 ^ k \<Longrightarrow> bit_length n \<le> k"
proof (induction k arbitrary: n)
  case 0
  then show ?case by simp
next
  case (Suc k)
  show ?case
  proof (cases "n \<le> 0")
    case True
    then show ?thesis by simp
  next
    case False
    from Suc.prems have "n div 2 < 2 ^ k" by simp
    then have "bit_length (n div 2) \<le> k" by (rule Suc.IH)
    with False show ?thesis by (subst bit_length.simps) simp
  qed
qed

lemma bit_length_1000: "bit_length 1000 = 10"
  by code_simp

lemma two_power_ge_512: "9 \<le> k \<Longrightarrow> (512::int) \<le> 2 ^ k"
proof -
  assume "9 \<le> k"
  then have "(2::int) ^ 9 \<le> 2 ^ k" by (intro power_increasing) simp_all
  then show ?thesis by simp
qed

lemma int_truediv_1000_shape:
  assumes "v \<noteq> 0" and "\<bar>v\<bar> < 2 ^ 53"
  shows "\<exists>k\<ge>9. int_truediv v 1000 =
    Inr (PyFloat (if v < 0 then - round_half_even (\<bar>v\<bar> * 2 ^ k) 1000 else round_half_even (\<bar>v\<bar> * 2 ^ k) 1000) (- int k))"
proof -
  define e where "e = float_exponent \<bar>v\<bar> 1000"
  have "bit_length \<bar>v\<bar> \<le> 53" using assms(2) by (rule bit_length_le)
  then have "int (bit_length \<bar>v\<bar>) - int (bit_length 1000) - 53 \<le> - 10"
    by (simp add: bit_length_1000)
  then have e: "e \<le> - 9"
    unfolding e_def float_exponent_def Let_def by (simp split: if_splits)
  define k where "k = nat (- e)"
  have k: "9 \<le> k" "e = - int k" using e by (simp_all add: k_def)
  have no: "\<not> float_overflows (scaled_round \<bar>v\<bar> 1000 e) e"
    using e by (simp add: float_overflows_def)
  have "int_truediv v 1000 =
    Inr (PyFloat (if v < 0 then - scaled_round \<bar>v\<bar> 1000 e else scaled_round \<bar>v\<bar> 1000 e) e)"
    unfolding int_truediv_def Let_def using assms(1) no by (simp add: e_def)
  moreover have "scaled_round \<bar>v\<bar> 1000 e = round_half_even (\<bar>v\<bar> * 2 ^ k) 1000"
    using e by (simp add: scaled_round_def k_def)
  ultimately show ?thesis using k by auto
qed

lemma double_rounding_close:
  assumes "0 < n" and "9 \<le> k"
  defines "m \<equiv> round_half_even (n * 2 ^ k) 1000"
  defines "c \<equiv> round_half_even (m * 100) (2 ^ k)"
  shows "0 < m" and "\<bar>10 * c - n\<bar> \<le> 5"
proof -
  have p: "(512::int) \<le> 2 ^ k" using assms(2) by (rule two_power_ge_512)
  define P :: int where "P = 2 ^ k"
  have P: "512 \<le> P" using p P_def by simp
  have m1: "2 * (1000 * m - n * P) \<le> 1000" and m2: "- 1000 \<le> 2 * (1000 * m - n * P)"
    using round_half_even_bounds [of 1000 "n * 2 ^ k"] by (simp_all add: m_def P_def)
  have c1: "2 * (P * c - m * 100) \<le> P" and c2: "- P \<le> 2 * (P * c - m * 100)"
    using round_half_even_bounds [of "2 ^ k" "m * 100"] by (simp_all add: c_def P_def)
  have "512 \<le> n * P"
  proof -
    have "1 * 512 \<le> n * P" using assms(1) P by (intro mult_mono) simp_all
    then show ?thesis by simp
  qed
  with m2 show "0 < m" by simp
  have up: "P * (10 * c - n) \<le> 5 * P + 500" using m1 c1 by (simp add: algebra_simps)
  have lo: "- (5 * P + 500) \<le> P * (10 * c - n)" using m2 c2 by (simp add: algebra_simps)
  have "10 * c - n < 6"
  proof (rule ccontr)
    assume "\<not> 10 * c - n < 6"
    then have "6 \<le> 10 * c - n" by simp
    then have "P * 6 \<le> P * (10 * c - n)" using P by (intro mult_left_mono) simp_all
    with up P show False by simp
  qed
  moreover have "- 6 < 10 * c - n"
  proof (rule ccontr)
    assume "\<not> - 6 < 10 * c - n"
    then have "10 * c - n \<le> - 6" by simp
    then have "P * (10 * c - n) \<le> P * (- 6)" using P by (intro mult_left_mono) simp_all
    with lo P show False by simp
  qed
  ultimately show "\<bar>10 * c - n\<bar> \<le> 5" by simp
qed


lemma div_10_decompose:
  fixes q s :: int
  assumes "0 \<le> s" and "s < 10"
  shows "(10 * q + s) div 10 = q"
proof -
  have "(10 * q + s) div 10 = q + s div 10" by simp
  also have "s div 10 = 0" using assms by simp
  finally show ?thesis by simp
qed

lemma nearest_hundredths_mem:
  assumes "\<bar>10 * c - \<bar>v\<bar>\<bar> \<le> 5"
  shows "c \<in> set (nearest_hundredths v)"
proof -
  define n where "n = \<bar>v\<bar>"
  define q where "q = n div 10"
  define r where "r = n mod 10"
  have n: "n = 10 * q + r" by (simp add: q_def r_def)
  have r: "0 \<le> r" "r < 10" by (simp_all add: r_def)
  have h: "10 * c - (10 * q + r) \<le> 5" "- 5 \<le> 10 * c - (10 * q + r)"
    using assms by (simp_all add: n_def[symmetric] n[symmetric])
  have nh: "nearest_hundredths v = (if r = 5 then [q, q + 1] else [(n + 5) div 10])"
    by (simp add: nearest_hundredths_def Let_def n_def q_def r_def)
  show ?thesis
  proof (cases "r = 5")
    case True
    with h have "c = q \<or> c = q + 1" by arith
    with True show ?thesis by (auto simp: nh)
  next
    case False
    show ?thesis
    proof (cases "r < 5")
      case True
      have "n + 5 = 10 * q + (r + 5)" using n by simp
      then have "(n + 5) div 10 = q" using div_10_decompose [of "r + 5" q] True r by simp
      moreover from h True r have "c = q" by arith
      ultimately show ?thesis using False by (simp add: nh)
    next
      case nl: False
      with False have r5: "5 < r" by simp
      have "n + 5 = 10 * (q + 1) + (r - 5)" using n by simp
      then have "(n + 5) div 10 = q + 1" using div_10_decompose [of "r - 5" "q + 1"] r5 r by simp
      moreover from h r5 r have "c = q + 1" by arith
      ultimately show ?thesis using False by (simp add: nh)
    qed
  qed
qed

lemma currency_formatted_nearest:
  assumes "\<bar>v\<bar> < 2 ^ 53"
  shows "\<exists>c \<in> set (nearest_hundredths v).
    currency_formatted v = Inr (''$'' @ two_decimal_rendering (v < 0) c)"
proof (cases "v = 0")
  case True
  then show ?thesis
    by (simp add: currency_formatted_def int_truediv_def format_2f_def nearest_hundredths_def)
next
  case False
  from int_truediv_1000_shape [OF False assms] obtain k where k: "9 \<le> k"
    and x: "int_truediv v 1000 =
      Inr (PyFloat (if v < 0 then - round_half_even (\<bar>v\<bar> * 2 ^ k) 1000 else round_half_even (\<bar>v\<bar> * 2 ^ k) 1000) (- int k))"
    by blast
  define m where "m = round_half_even (\<bar>v\<bar> * 2 ^ k) 1000"
  define c where "c = round_half_even (m * 100) (2 ^ k)"
  have n: "0 < \<bar>v\<bar>" using False by simp
  from double_rounding_close [OF n k] have m: "0 < m" and c: "\<bar>10 * c - \<bar>v\<bar>\<bar> \<le> 5"
    by (simp_all add: m_def c_def)
  have mem: "c \<in> set (nearest_hundredths v)" using c by (rule nearest_hundredths_mem)
  have x': "int_truediv v 1000 = Inr (PyFloat (if v < 0 then - m else m) (- int k))"
    using x by (simp only: m_def)
  have neg: "(mantissa (PyFloat (if v < 0 then - m else m) (- int k)) < 0) = (v < 0)"
    using m by simp
  have mag: "\<bar>mantissa (PyFloat (if v < 0 then - m else m) (- int k))\<bar> = m"
    using m by simp
  have "format_2f (PyFloat (if v < 0 then - m else m) (- int k)) = two_decimal_rendering (v < 0) c"
    unfolding format_2f_def Let_def neg mag using k by (simp add: c_def)
  then have "currency_formatted v = Inr (''$'' @ two_decimal_rendering (v < 0) c)"
    by (simp add: currency_formatted_def x')
  with mem show ?thesis by blast
qed


text \<open>
  C1, as amended.  For every integer milliunit value \<open>v\<close> of magnitude below
  \<open>2 ^ 53\<close>, the formatted companion string is \<open>$\<close> followed by \<open>v / 1000\<close>
  written with exactly two decimal places, that is by a hundredth nearest to
  \<open>v / 1000\<close>, with the sign of a negative \<open>v\<close> after the \<open>$\<close>.
\<close>

theorem currency_formatted_two_decimals:
  "\<bar>v\<bar> < 2 ^ 53 \<Longrightarrow> \<exists>s \<in> set (exact_currency_strings v). currency_formatted v = Inr s"
  using currency_formatted_nearest [of v] by (auto simp: exact_currency_strings_def)

theorem currency_formatted_two_decimals_witness:
  "exact_currency_strings (- 10500) = [''$-10.50''] \<and> currency_formatted (- 10500) = Inr ''$-10.50''"
proof -
  have e: "exact_currency_strings (- 10500) = [''$-10.50'']" by code_simp
  have "\<bar>- 10500 :: int\<bar> < 2 ^ 53" by simp
  from currency_formatted_two_decimals [OF this] e
  have "currency_formatted (- 10500) = Inr ''$-10.50''" by simp
  with e show ?thesis by simp
qed

text \<open>
  C1 as stated, for every integer, fails: the quotient is a double, and at
  \<open>v = 9007199254740993000\<close> the double nearest to \<open>v / 1000 = 2 ^ 53 + 1\<close> is
  \<open>2 ^ 53\<close>, so the string shows a whole unit less than \<open>v / 1000\<close>.
\<close>

theorem currency_formatted_large_counterexample:
  "currency_formatted 9007199254740993000 = Inr ''$9007199254740992.00''
   \<and> exact_currency_strings 9007199254740993000 = [''$9007199254740993.00'']"
  by code_simp

subsection \<open>Budget-ID resolution\<close>

text \<open>
  C2.  For every selector string \<open>s\<close>, budget-ID resolution returns the
  configured default-budget identifier when \<open>s\<close> is \<open>default\<close> and one is
  configured, the sentinel \<open>last-used\<close> when \<open>s\<close> is \<open>default\<close> and none is
  configured, and \<open>s\<close> unchanged for every other input, the literal
  \<open>last-used\<close> included.  (As in the source, an empty value of
  \<open>DEFAULT_BUDGET_ID\<close> is falsy and counts as no configuration.)
\<close>

theorem get_budget_id_resolves:
  "(s = ''default'' \<longrightarrow> environ w ''DEFAULT_BUDGET_ID'' = Some d \<longrightarrow> d \<noteq> [] \<longrightarrow>
      get_budget_id w (VStr s) = VStr d)
   \<and> (s = ''default'' \<longrightarrow> environ w ''DEFAULT_BUDGET_ID'' \<in> {None, Some []} \<longrightarrow>
      get_budget_id w (VStr s) = VStr ''last-used'')
   \<and> (s \<noteq> ''default'' \<longrightarrow> get_budget_id w (VStr s) = VStr s)
   \<and> get_budget_id w (VStr ''last-used'') = VStr ''last-used''"
  by (auto simp: get_budget_id_def os_getenv_def)

theorem get_budget_id_resolves_witness:
  "get_budget_id (process_start [''DEFAULT_BUDGET_ID'' \<mapsto> ''B1'']) (VStr ''default'') = VStr ''B1''
   \<and> get_budget_id (process_start Map.empty) (VStr ''default'') = VStr ''last-used''
   \<and> get_budget_id (process_start [''DEFAULT_BUDGET_ID'' \<mapsto> ''B1'']) (VStr ''B2'') = VStr ''B2''"
  using get_budget_id_resolves [of "''default''" "process_start [''DEFAULT_BUDGET_ID'' \<mapsto> ''B1'']" "''B1''"]
    get_budget_id_resolves [of "''default''" "process_start Map.empty" "''B1''"]
    get_budget_id_resolves [of "''B2''" "process_start [''DEFAULT_BUDGET_ID'' \<mapsto> ''B1'']" "''B1''"]
  by (simp add: process_start_def)

subsection \<open>The shared API client\<close>







subsection \<open>The call-logging decorator\<close>

lemma sig_bind_type_error:
  "sig_bind ps as kws = Inl e \<Longrightarrow> exn_class e = ''TypeError''"
  by (induction ps as kws rule: sig_bind.induct)
     (auto simp: type_error_def split: list.splits if_splits sum.splits option.splits)

text \<open>
  C8.  For every function \<open>f\<close> and every argument list, the wrapper that
  \<open>log_tool_call\<close> puts around \<open>f\<close> returns what the direct call \<open>f(*args, **kwargs)\<close>
  returns and leaves the process in the same state, with logging enabled or
  disabled: where the arguments fit the signature, both run the body of \<open>f\<close>
  once, on the same arguments (defaults applied) and the same state; where they
  do not, both raise \<open>TypeError\<close> and the body does not run in either.  The
  wrapper never changes the flag.
\<close>

theorem log_tool_call_transparent:
  "(\<forall>bound. sig_bind (func_params f) args kwargs = Inr bound \<longrightarrow>
      fst (log_tool_call f args kwargs (d, w)) = fst (py_call f args kwargs w)
      \<and> snd (snd (log_tool_call f args kwargs (d, w))) = snd (py_call f args kwargs w)
      \<and> py_call f args kwargs w = func_body f (apply_defaults (func_params f) bound) w)
   \<and> (\<forall>e. sig_bind (func_params f) args kwargs = Inl e \<longrightarrow>
      (\<exists>e1 e2. fst (log_tool_call f args kwargs (d, w)) = Inl e1 \<and> exn_class e1 = ''TypeError''
         \<and> fst (py_call f args kwargs w) = Inl e2 \<and> exn_class e2 = ''TypeError'')
      \<and> snd (snd (log_tool_call f args kwargs (d, w))) = w
      \<and> snd (py_call f args kwargs w) = w)
   \<and> LOGGING_ENABLED (fst (snd (log_tool_call f args kwargs (d, w)))) = LOGGING_ENABLED d"
  by (auto simp: log_tool_call_def py_call_def Let_def debug_log_tool_call_def
      dest: sig_bind_type_error split: sum.splits prod.splits)

theorem log_tool_call_transparent_witness:
  "fst (log_tool_call echo [VInt 1] [] (\<lparr>LOGGING_ENABLED = True, stderr = []\<rparr>, process_start Map.empty))
     = Inr [(''x'', VInt 1), (''y'', VInt 2)]
   \<and> fst (py_call echo [VInt 1] [] (process_start Map.empty)) = Inr [(''x'', VInt 1), (''y'', VInt 2)]
   \<and> stderr (fst (snd (log_tool_call echo [VInt 1] [] (\<lparr>LOGGING_ENABLED = True, stderr = []\<rparr>, process_start Map.empty))))
     = [''TOOL_CALL: echo(x=1, y=2)'']
   \<and> exn_class (projl (fst (log_tool_call echo [] [] (\<lparr>LOGGING_ENABLED = True, stderr = []\<rparr>, process_start Map.empty))))
     = ''TypeError''"
  using log_tool_call_transparent [of echo "[VInt 1]" "[]" "\<lparr>LOGGING_ENABLED = True, stderr = []\<rparr>" "process_start Map.empty"]
    log_tool_call_transparent [of echo "[]" "[]" "\<lparr>LOGGING_ENABLED = True, stderr = []\<rparr>" "process_start Map.empty"]
  by (simp add: echo_def log_tool_call_def py_call_def debug_log_tool_call_def log_message_def
      format_value_def int_repr_def digit_char_def type_error_def)



subsection \<open>Payee search\<close>

lemma get_ynab_client_frame:
  "calls (snd (get_ynab_client w)) = calls w" "environ (snd (get_ynab_client w)) = environ w"
  by (auto simp: get_ynab_client_def logger_log_def Let_def split: option.splits)









subsection \<open>The payload of update\_transaction\<close>

lemma provided_fields_filter:
  "provided_fields names args acc =
     acc @ map (\<lambda>n. (n, arg args n)) (filter (\<lambda>n. arg args n \<noteq> VNone) names)"
  by (induction names arbitrary: acc) simp_all

lemma error_result_calls: "calls (snd (error_result msg e w)) = calls w"
  by (simp add: error_result_def logger_log_def)

lemma update_transaction_calls:
  assumes "fst (get_ynab_client w) = Inr c"
  shows "\<exists>raised. calls (snd (func_body (update_transaction R) args w)) =
     calls w @ [ApiEvent ''update_transaction''
        [(''budget_id'', get_budget_id w (arg args ''budget_id'')),
         (''transaction_id'', arg args ''transaction_id''),
         (''data'', VDict [(''transaction'', VDict (provided_fields transaction_fields args []))])]
        raised]"
proof -
  obtain w1 where g: "get_ynab_client w = (Inr c, w1)"
    using assms by (cases "get_ynab_client w") simp
  have f: "calls w1 = calls w" using get_ynab_client_frame(1) [of w] g by simp
  show ?thesis
    using g f
    by (auto simp: update_transaction_def update_transaction_try_def try_except_def bind_a_def
        api_call_def return_a_def raise_a_def lift_a_def Let_def error_result_def logger_log_def
        split: sum.splits api_response.splits)
qed

text \<open>
  C10.  The payload \<open>update_transaction\<close> sends to the remote API holds exactly
  those of the ten updatable fields whose parameter is not \<open>None\<close>, each once
  and with the value of the parameter; a parameter left as \<open>None\<close> is absent
  from the payload.
\<close>

theorem update_transaction_payload:
  assumes "fst (get_ynab_client w) = Inr c"
  shows "\<exists>payload raised.
     calls (snd (func_body (update_transaction R) args w)) =
       calls w @ [ApiEvent ''update_transaction''
          [(''budget_id'', get_budget_id w (arg args ''budget_id'')),
           (''transaction_id'', arg args ''transaction_id''),
           (''data'', VDict [(''transaction'', VDict payload)])]
          raised]
     \<and> distinct (map fst payload)
     \<and> (\<forall>name. map_of payload name =
           (if name \<in> set transaction_fields \<and> arg args name \<noteq> VNone
            then Some (arg args name) else None))"
proof -
  define payload where "payload = provided_fields transaction_fields args []"
  have p: "payload = map (\<lambda>n. (n, arg args n)) (filter (\<lambda>n. arg args n \<noteq> VNone) transaction_fields)"
    by (simp add: payload_def provided_fields_filter)
  have d: "distinct transaction_fields" by (simp add: transaction_fields_def)
  have d': "distinct (map fst payload)"
    using d by (simp add: p comp_def)
  have m: "\<forall>name. map_of payload name =
           (if name \<in> set transaction_fields \<and> arg args name \<noteq> VNone
            then Some (arg args name) else None)"
    by (simp add: p map_of_map_restrict restrict_map_def)
  from update_transaction_calls [OF assms, of R args] d' m show ?thesis
    unfolding payload_def by blast
qed

theorem update_transaction_payload_witness:
  "calls (snd (func_body (update_transaction stub_remote)
      [(''transaction_id'', VStr ''t1''), (''account_id'', VNone), (''amount'', VInt 5000),
       (''date'', VNone), (''payee_name'', VNone), (''payee_id'', VNone),
       (''category_id'', VNone), (''cleared'', VNone), (''approved'', VNone),
       (''memo'', VStr ''x''), (''flag_color'', VNone), (''budget_id'', VStr ''default'')]
      ready)) =
   [ApiEvent ''update_transaction''
      [(''budget_id'', VStr ''last-used''), (''transaction_id'', VStr ''t1''),
       (''data'', VDict [(''transaction'', VDict [(''amount'', VInt 5000), (''memo'', VStr ''x'')])])]
      None]"
proof -
  let ?args = "[(''transaction_id'', VStr ''t1''), (''account_id'', VNone), (''amount'', VInt 5000),
       (''date'', VNone), (''payee_name'', VNone), (''payee_id'', VNone),
       (''category_id'', VNone), (''cleared'', VNone), (''approved'', VNone),
       (''memo'', VStr ''x''), (''flag_color'', VNone), (''budget_id'', VStr ''default'')]"
  have h: "fst (get_ynab_client ready) = Inr (ApiClient ''k'' 0)"
    by (simp add: ready_def get_ynab_client_def process_start_def os_getenv_def Let_def)
  from update_transaction_payload [where R = stub_remote and args = ?args, OF h]
  obtain payload raised where
    c: "calls (snd (func_body (update_transaction stub_remote) ?args ready)) =
       calls ready @ [ApiEvent ''update_transaction''
          [(''budget_id'', get_budget_id ready (arg ?args ''budget_id'')),
           (''transaction_id'', arg ?args ''transaction_id''),
           (''data'', VDict [(''transaction'', VDict payload)])] raised]"
    by blast
  have e: "calls (snd (func_body (update_transaction stub_remote) ?args ready)) =
   [ApiEvent ''update_transaction''
      [(''budget_id'', VStr ''last-used''), (''transaction_id'', VStr ''t1''),
       (''data'', VDict [(''transaction'', VDict [(''amount'', VInt 5000), (''memo'', VStr ''x'')])])]
      None]"
    by (simp add: update_transaction_def update_transaction_try_def try_except_def bind_a_def
        api_call_def lift_a_def Let_def ready_def process_start_def get_ynab_client_def
        os_getenv_def logger_log_def get_budget_id_def arg_def transaction_fields_def
        stub_remote_def saved_transaction_dict_def error_result_def split: sum.splits)
  with c show ?thesis by simp
qed

subsection \<open>Validation of enumerated inputs\<close>




subsection \<open>Exceptions at the tool boundary\<close>

lemma silent_simps:
  "silent (return_a x)" "silent (raise_a e)" "silent (lift_a r)"
  by (simp_all add: silent_def return_a_def raise_a_def lift_a_def)

lemma silent_bind: "silent m \<Longrightarrow> (\<And>x. silent (f x)) \<Longrightarrow> silent (bind_a m f)"
  by (auto simp: silent_def bind_a_def split: prod.splits sum.splits) (metis snd_conv)+

lemma client_then_call:
  assumes "\<And>resp. silent (k resp)"
    and "bind_a get_ynab_client (\<lambda>api_client. bind_a (api_call R m kw) k) w = (r, w')"
  shows "calls w' = calls w
    \<or> (\<exists>ev. calls w' = calls w @ [ev] \<and> (\<forall>e. api_raised ev = Some e \<longrightarrow> r = Inl e))"
proof (cases "get_ynab_client w")
  case (Pair g w1)
  have f: "calls w1 = calls w" using get_ynab_client_frame(1) [of w] Pair by simp
  show ?thesis
  proof (cases g)
    case (Inl e)
    with Pair assms(2) f show ?thesis by (simp add: bind_a_def)
  next
    case (Inr c)
    define res where "res = R (calls w1) m kw"
    define ev where "ev = ApiEvent m kw (case res of Inl e \<Rightarrow> Some e | Inr x \<Rightarrow> None)"
    define w2 where "w2 = w1\<lparr>calls := calls w1 @ [ev]\<rparr>"
    have a: "api_call R m kw w1 = (res, w2)"
      by (simp add: api_call_def Let_def res_def ev_def w2_def)
    have c2: "calls w2 = calls w @ [ev]" by (simp add: w2_def f)
    show ?thesis
    proof (cases res)
      case (Inl e)
      with Pair Inr a assms(2) have "r = Inl e" "w' = w2" by (simp_all add: bind_a_def)
      moreover have "api_raised ev = Some e" using Inl by (simp add: ev_def)
      ultimately show ?thesis using c2 by auto
    next
      case (Inr x)
      with Pair \<open>g = Inr c\<close> a assms(2) have k: "k x w2 = (r, w')" by (simp add: bind_a_def)
      from assms(1) [of x] have "calls (snd (k x w2)) = calls w2" by (simp add: silent_def)
      with k have "calls w' = calls w @ [ev]" using c2 by simp
      moreover have "api_raised ev = None" using Inr by (simp add: ev_def)
      ultimately show ?thesis by auto
    qed
  qed
qed

lemma reports_error_error_result: "reports_error (error_result msg)"
  by (simp add: reports_error_def error_result_def logger_log_def)

lemma tool_safeI:
  assumes "\<And>args w r w'. m args w = (r, w') \<Longrightarrow>
      calls w' = calls w
      \<or> (\<exists>ev. calls w' = calls w @ [ev] \<and> (\<forall>e. api_raised ev = Some e \<longrightarrow> r = Inl e))"
    and "\<And>args w. reports_error (h args w)"
  shows "tool_safe (\<lambda>args w. try_except (m args) (h args w) w)"
  unfolding tool_safe_def
proof (intro allI)
  fix args w
  obtain r w1 where m: "m args w = (r, w1)" by (cases "m args w")
  note tr = assms(1) [OF m]
  show "\<exists>result w'. try_except (m args) (h args w) w = (Inr result, w')
        \<and> (calls w' = calls w
             \<or> (\<exists>ev. calls w' = calls w @ [ev]
                   \<and> (\<forall>e. api_raised ev = Some e \<longrightarrow>
                          map_of result ''error'' = Some (VStr (exn_str e)))))"
  proof (cases r)
    case (Inr result)
    with m tr show ?thesis by (auto simp: try_except_def)
  next
    case (Inl e)
    from assms(2) [of args w] obtain result w2 where
      h: "h args w e w1 = (Inr result, w2)" "map_of result ''error'' = Some (VStr (exn_str e))"
         "calls w2 = calls w1"
      unfolding reports_error_def by blast
    have t: "try_except (m args) (h args w) w = (Inr result, w2)"
      using m Inl h(1) by (simp add: try_except_def)
    from tr Inl h(2,3) have "calls w2 = calls w
             \<or> (\<exists>ev. calls w2 = calls w @ [ev]
                   \<and> (\<forall>e. api_raised ev = Some e \<longrightarrow>
                          map_of result ''error'' = Some (VStr (exn_str e))))"
      by auto
    with t show ?thesis by blast
  qed
qed

lemmas silent_unfold =
  silent_def return_a_def raise_a_def lift_a_def bind_a_def Let_def

lemma get_budgets_try_trace:
  "get_budgets_try R args w = (r, w') \<Longrightarrow>
   calls w' = calls w
   \<or> (\<exists>ev. calls w' = calls w @ [ev] \<and> (\<forall>e. api_raised ev = Some e \<longrightarrow> r = Inl e))"
  unfolding get_budgets_try_def Let_def
  by (erule client_then_call [rotated])
     (simp add: silent_unfold split: api_response.splits sum.splits option.splits)

lemma get_budget_by_id_try_trace:
  "get_budget_by_id_try R args w = (r, w') \<Longrightarrow>
   calls w' = calls w
   \<or> (\<exists>ev. calls w' = calls w @ [ev] \<and> (\<forall>e. api_raised ev = Some e \<longrightarrow> r = Inl e))"
  unfolding get_budget_by_id_try_def Let_def
  by (erule client_then_call [rotated])
     (simp add: silent_unfold split: api_response.splits sum.splits option.splits)

lemma get_budget_settings_try_trace:
  "get_budget_settings_try R args w = (r, w') \<Longrightarrow>
   calls w' = calls w
   \<or> (\<exists>ev. calls w' = calls w @ [ev] \<and> (\<forall>e. api_raised ev = Some e \<longrightarrow> r = Inl e))"
  unfolding get_budget_settings_try_def Let_def
  by (erule client_then_call [rotated])
     (simp add: silent_unfold split: api_response.splits sum.splits option.splits)

lemma get_accounts_try_trace:
  "get_accounts_try R args w = (r, w') \<Longrightarrow>
   calls w' = calls w
   \<or> (\<exists>ev. calls w' = calls w @ [ev] \<and> (\<forall>e. api_raised ev = Some e \<longrightarrow> r = Inl e))"
  unfolding get_accounts_try_def Let_def
  by (erule client_then_call [rotated])
     (simp add: silent_unfold split: api_response.splits sum.splits option.splits)

lemma get_account_by_id_try_trace:
  "get_account_by_id_try R args w = (r, w') \<Longrightarrow>
   calls w' = calls w
   \<or> (\<exists>ev. calls w' = calls w @ [ev] \<and> (\<forall>e. api_raised ev = Some e \<longrightarrow> r = Inl e))"
  unfolding get_account_by_id_try_def Let_def
  by (erule client_then_call [rotated])
     (simp add: silent_unfold split: api_response.splits sum.splits option.splits)

lemma get_account_balance_try_trace:
  "get_account_balance_try R args w = (r, w') \<Longrightarrow>
   calls w' = calls w
   \<or> (\<exists>ev. calls w' = calls w @ [ev] \<and> (\<forall>e. api_raised ev = Some e \<longrightarrow> r = Inl e))"
  unfolding get_account_balance_try_def Let_def
  by (erule client_then_call [rotated])
     (simp add: silent_unfold split: api_response.splits sum.splits option.splits)

lemma get_transactions_try_trace:
  "get_transactions_try R args w = (r, w') \<Longrightarrow>
   calls w' = calls w
   \<or> (\<exists>ev. calls w' = calls w @ [ev] \<and> (\<forall>e. api_raised ev = Some e \<longrightarrow> r = Inl e))"
  unfolding get_transactions_try_def Let_def
  by (erule client_then_call [rotated])
     (simp add: silent_unfold split: api_response.splits sum.splits option.splits)

lemma get_transaction_by_id_try_trace:
  "get_transaction_by_id_try R args w = (r, w') \<Longrightarrow>
   calls w' = calls w
   \<or> (\<exists>ev. calls w' = calls w @ [ev] \<and> (\<forall>e. api_raised ev = Some e \<longrightarrow> r = Inl e))"
  unfolding get_transaction_by_id_try_def Let_def
  by (erule client_then_call [rotated])
     (simp add: silent_unfold split: api_response.splits sum.splits option.splits)

lemma update_transaction_try_trace:
  "update_transaction_try R args w = (r, w') \<Longrightarrow>
   calls w' = calls w
   \<or> (\<exists>ev. calls w' = calls w @ [ev] \<and> (\<forall>e. api_raised ev = Some e \<longrightarrow> r = Inl e))"
  unfolding update_transaction_try_def Let_def
  by (erule client_then_call [rotated])
     (simp add: silent_unfold split: api_response.splits sum.splits option.splits)

lemma delete_transaction_try_trace:
  "delete_transaction_try R args w = (r, w') \<Longrightarrow>
   calls w' = calls w
   \<or> (\<exists>ev. calls w' = calls w @ [ev] \<and> (\<forall>e. api_raised ev = Some e \<longrightarrow> r = Inl e))"
  unfolding delete_transaction_try_def Let_def
  by (erule client_then_call [rotated])
     (simp add: silent_unfold split: api_response.splits sum.splits option.splits)

lemma import_transactions_try_trace:
  "import_transactions_try R args w = (r, w') \<Longrightarrow>
   calls w' = calls w
   \<or> (\<exists>ev. calls w' = calls w @ [ev] \<and> (\<forall>e. api_raised ev = Some e \<longrightarrow> r = Inl e))"
  unfolding import_transactions_try_def Let_def
  by (erule client_then_call [rotated])
     (simp add: silent_unfold split: api_response.splits sum.splits option.splits)

lemma get_categories_try_trace:
  "get_categories_try R args w = (r, w') \<Longrightarrow>
   calls w' = calls w
   \<or> (\<exists>ev. calls w' = calls w @ [ev] \<and> (\<forall>e. api_raised ev = Some e \<longrightarrow> r = Inl e))"
  unfolding get_categories_try_def Let_def
  by (erule client_then_call [rotated])
     (simp add: silent_unfold split: api_response.splits sum.splits option.splits)

lemma get_category_by_id_try_trace:
  "get_category_by_id_try R args w = (r, w') \<Longrightarrow>
   calls w' = calls w
   \<or> (\<exists>ev. calls w' = calls w @ [ev] \<and> (\<forall>e. api_raised ev = Some e \<longrightarrow> r = Inl e))"
  unfolding get_category_by_id_try_def Let_def
  by (erule client_then_call [rotated])
     (simp add: silent_unfold split: api_response.splits sum.splits option.splits)

lemma get_month_category_try_trace:
  "get_month_category_try R args w = (r, w') \<Longrightarrow>
   calls w' = calls w
   \<or> (\<exists>ev. calls w' = calls w @ [ev] \<and> (\<forall>e. api_raised ev = Some e \<longrightarrow> r = Inl e))"
  unfolding get_month_category_try_def Let_def
  by (erule client_then_call [rotated])
     (simp add: silent_unfold split: api_response.splits sum.splits option.splits)

lemma update_category_try_trace:
  "update_category_try R args w = (r, w') \<Longrightarrow>
   calls w' = calls w
   \<or> (\<exists>ev. calls w' = calls w @ [ev] \<and> (\<forall>e. api_raised ev = Some e \<longrightarrow> r = Inl e))"
  unfolding update_category_try_def Let_def
  by (erule client_then_call [rotated])
     (simp add: silent_unfold split: api_response.splits sum.splits option.splits)

lemma update_month_category_try_trace:
  "update_month_category_try R args w = (r, w') \<Longrightarrow>
   calls w' = calls w
   \<or> (\<exists>ev. calls w' = calls w @ [ev] \<and> (\<forall>e. api_raised ev = Some e \<longrightarrow> r = Inl e))"
  unfolding update_month_category_try_def Let_def
  by (erule client_then_call [rotated])
     (simp add: silent_unfold split: api_response.splits sum.splits option.splits)

lemma get_payees_try_trace:
  "get_payees_try R args w = (r, w') \<Longrightarrow>
   calls w' = calls w
   \<or> (\<exists>ev. calls w' = calls w @ [ev] \<and> (\<forall>e. api_raised ev = Some e \<longrightarrow> r = Inl e))"
  unfolding get_payees_try_def Let_def
  by (erule client_then_call [rotated])
     (simp add: silent_unfold split: api_response.splits sum.splits option.splits)

lemma get_payee_by_id_try_trace:
  "get_payee_by_id_try R args w = (r, w') \<Longrightarrow>
   calls w' = calls w
   \<or> (\<exists>ev. calls w' = calls w @ [ev] \<and> (\<forall>e. api_raised ev = Some e \<longrightarrow> r = Inl e))"
  unfolding get_payee_by_id_try_def Let_def
  by (erule client_then_call [rotated])
     (simp add: silent_unfold split: api_response.splits sum.splits option.splits)

lemma update_payee_try_trace:
  "update_payee_try R args w = (r, w') \<Longrightarrow>
   calls w' = calls w
   \<or> (\<exists>ev. calls w' = calls w @ [ev] \<and> (\<forall>e. api_raised ev = Some e \<longrightarrow> r = Inl e))"
  unfolding update_payee_try_def Let_def
  by (erule client_then_call [rotated])
     (simp add: silent_unfold split: api_response.splits sum.splits option.splits)

lemma get_payee_locations_try_trace:
  "get_payee_locations_try R args w = (r, w') \<Longrightarrow>
   calls w' = calls w
   \<or> (\<exists>ev. calls w' = calls w @ [ev] \<and> (\<forall>e. api_raised ev = Some e \<longrightarrow> r = Inl e))"
  unfolding get_payee_locations_try_def Let_def
  by (erule client_then_call [rotated])
     (simp add: silent_unfold split: api_response.splits sum.splits option.splits)

lemma get_payee_location_by_id_try_trace:
  "get_payee_location_by_id_try R args w = (r, w') \<Longrightarrow>
   calls w' = calls w
   \<or> (\<exists>ev. calls w' = calls w @ [ev] \<and> (\<forall>e. api_raised ev = Some e \<longrightarrow> r = Inl e))"
  unfolding get_payee_location_by_id_try_def Let_def
  by (erule client_then_call [rotated])
     (simp add: silent_unfold split: api_response.splits sum.splits option.splits)

lemma get_payee_locations_by_payee_try_trace:
  "get_payee_locations_by_payee_try R args w = (r, w') \<Longrightarrow>
   calls w' = calls w
   \<or> (\<exists>ev. calls w' = calls w @ [ev] \<and> (\<forall>e. api_raised ev = Some e \<longrightarrow> r = Inl e))"
  unfolding get_payee_locations_by_payee_try_def Let_def
  by (erule client_then_call [rotated])
     (simp add: silent_unfold split: api_response.splits sum.splits option.splits)

lemma search_payees_try_trace:
  "search_payees_try R args w = (r, w') \<Longrightarrow>
   calls w' = calls w
   \<or> (\<exists>ev. calls w' = calls w @ [ev] \<and> (\<forall>e. api_raised ev = Some e \<longrightarrow> r = Inl e))"
  unfolding search_payees_try_def Let_def
  by (erule client_then_call [rotated])
     (simp add: silent_unfold split: api_response.splits sum.splits option.splits)

lemma get_user_try_trace:
  "get_user_try R args w = (r, w') \<Longrightarrow>
   calls w' = calls w
   \<or> (\<exists>ev. calls w' = calls w @ [ev] \<and> (\<forall>e. api_raised ev = Some e \<longrightarrow> r = Inl e))"
  unfolding get_user_try_def Let_def
  by (erule client_then_call [rotated])
     (simp add: silent_unfold split: api_response.splits sum.splits option.splits)

lemma verify_api_key_try_trace:
  "verify_api_key_try R args w = (r, w') \<Longrightarrow>
   calls w' = calls w
   \<or> (\<exists>ev. calls w' = calls w @ [ev] \<and> (\<forall>e. api_raised ev = Some e \<longrightarrow> r = Inl e))"
  unfolding verify_api_key_try_def Let_def
  by (erule client_then_call [rotated])
     (simp add: silent_unfold split: api_response.splits sum.splits option.splits)

lemma create_account_try_trace:
  "create_account_try R args w = (r, w') \<Longrightarrow>
   calls w' = calls w
   \<or> (\<exists>ev. calls w' = calls w @ [ev] \<and> (\<forall>e. api_raised ev = Some e \<longrightarrow> r = Inl e))"
  unfolding create_account_try_def Let_def
  apply (simp split: if_splits)
   apply (simp add: return_a_def)
  by (erule client_then_call [rotated])
     (simp add: silent_unfold split: api_response.splits sum.splits option.splits)

lemma create_transaction_try_trace:
  "create_transaction_try R args w = (r, w') \<Longrightarrow>
   calls w' = calls w
   \<or> (\<exists>ev. calls w' = calls w @ [ev] \<and> (\<forall>e. api_raised ev = Some e \<longrightarrow> r = Inl e))"
  unfolding create_transaction_try_def Let_def
  apply (simp split: if_splits)
    apply (simp add: return_a_def)
   apply (simp add: return_a_def)
  by (erule client_then_call [rotated])
     (simp add: silent_unfold split: api_response.splits sum.splits option.splits)

lemma get_category_balance_try_trace:
  "get_category_balance_try R args w = (r, w') \<Longrightarrow>
   calls w' = calls w
   \<or> (\<exists>ev. calls w' = calls w @ [ev] \<and> (\<forall>e. api_raised ev = Some e \<longrightarrow> r = Inl e))"
  unfolding get_category_balance_try_def Let_def
  apply (simp split: if_splits)
   apply (erule client_then_call [rotated])
   apply (simp add: silent_unfold split: api_response.splits sum.splits option.splits)
  apply (erule client_then_call [rotated])
  apply (simp add: silent_unfold split: api_response.splits sum.splits option.splits)
  done

lemma get_budgets_safe: "tool_safe (func_body (get_budgets R))"
  unfolding get_budgets_def
  by (simp, rule tool_safeI, erule get_budgets_try_trace)
     (rule reports_error_error_result)

lemma get_budget_by_id_safe: "tool_safe (func_body (get_budget_by_id R))"
  unfolding get_budget_by_id_def
  by (simp, rule tool_safeI, erule get_budget_by_id_try_trace)
     (rule reports_error_error_result)

lemma get_budget_settings_safe: "tool_safe (func_body (get_budget_settings R))"
  unfolding get_budget_settings_def
  by (simp, rule tool_safeI, erule get_budget_settings_try_trace)
     (rule reports_error_error_result)

lemma get_accounts_safe: "tool_safe (func_body (get_accounts R))"
  unfolding get_accounts_def
  by (simp, rule tool_safeI, erule get_accounts_try_trace)
     (rule reports_error_error_result)

lemma get_account_by_id_safe: "tool_safe (func_body (get_account_by_id R))"
  unfolding get_account_by_id_def
  by (simp, rule tool_safeI, erule get_account_by_id_try_trace)
     (rule reports_error_error_result)

lemma create_account_safe: "tool_safe (func_body (create_account R))"
  unfolding create_account_def
  by (simp, rule tool_safeI, erule create_account_try_trace)
     (rule reports_error_error_result)

lemma get_account_balance_safe: "tool_safe (func_body (get_account_balance R))"
  unfolding get_account_balance_def
  by (simp, rule tool_safeI, erule get_account_balance_try_trace)
     (rule reports_error_error_result)

lemma get_transactions_safe: "tool_safe (func_body (get_transactions R))"
  unfolding get_transactions_def
  by (simp, rule tool_safeI, erule get_transactions_try_trace)
     (rule reports_error_error_result)

lemma get_transaction_by_id_safe: "tool_safe (func_body (get_transaction_by_id R))"
  unfolding get_transaction_by_id_def
  by (simp, rule tool_safeI, erule get_transaction_by_id_try_trace)
     (rule reports_error_error_result)

lemma create_transaction_safe: "tool_safe (func_body (create_transaction R))"
  unfolding create_transaction_def
  by (simp, rule tool_safeI, erule create_transaction_try_trace)
     (rule reports_error_error_result)

lemma update_transaction_safe: "tool_safe (func_body (update_transaction R))"
  unfolding update_transaction_def
  by (simp, rule tool_safeI, erule update_transaction_try_trace)
     (rule reports_error_error_result)

lemma delete_transaction_safe: "tool_safe (func_body (delete_transaction R))"
  unfolding delete_transaction_def
  by (simp, rule tool_safeI, erule delete_transaction_try_trace)
     (rule reports_error_error_result)

lemma import_transactions_safe: "tool_safe (func_body (import_transactions R))"
  unfolding import_transactions_def
  by (simp, rule tool_safeI, erule import_transactions_try_trace)
     (rule reports_error_error_result)

lemma get_categories_safe: "tool_safe (func_body (get_categories R))"
  unfolding get_categories_def
  by (simp, rule tool_safeI, erule get_categories_try_trace)
     (rule reports_error_error_result)

lemma get_category_by_id_safe: "tool_safe (func_body (get_category_by_id R))"
  unfolding get_category_by_id_def
  by (simp, rule tool_safeI, erule get_category_by_id_try_trace)
     (rule reports_error_error_result)

lemma get_month_category_safe: "tool_safe (func_body (get_month_category R))"
  unfolding get_month_category_def
  by (simp, rule tool_safeI, erule get_month_category_try_trace)
     (rule reports_error_error_result)

lemma update_category_safe: "tool_safe (func_body (update_category R))"
  unfolding update_category_def
  by (simp, rule tool_safeI, erule update_category_try_trace)
     (rule reports_error_error_result)

lemma update_month_category_safe: "tool_safe (func_body (update_month_category R))"
  unfolding update_month_category_def
  by (simp, rule tool_safeI, erule update_month_category_try_trace)
     (rule reports_error_error_result)

lemma get_category_balance_safe: "tool_safe (func_body (get_category_balance R))"
  unfolding get_category_balance_def
  by (simp, rule tool_safeI, erule get_category_balance_try_trace)
     (rule reports_error_error_result)

lemma get_payees_safe: "tool_safe (func_body (get_payees R))"
  unfolding get_payees_def
  by (simp, rule tool_safeI, erule get_payees_try_trace)
     (rule reports_error_error_result)

lemma get_payee_by_id_safe: "tool_safe (func_body (get_payee_by_id R))"
  unfolding get_payee_by_id_def
  by (simp, rule tool_safeI, erule get_payee_by_id_try_trace)
     (rule reports_error_error_result)

lemma update_payee_safe: "tool_safe (func_body (update_payee R))"
  unfolding update_payee_def
  by (simp, rule tool_safeI, erule update_payee_try_trace)
     (rule reports_error_error_result)

lemma get_payee_locations_safe: "tool_safe (func_body (get_payee_locations R))"
  unfolding get_payee_locations_def
  by (simp, rule tool_safeI, erule get_payee_locations_try_trace)
     (rule reports_error_error_result)

lemma get_payee_location_by_id_safe: "tool_safe (func_body (get_payee_location_by_id R))"
  unfolding get_payee_location_by_id_def
  by (simp, rule tool_safeI, erule get_payee_location_by_id_try_trace)
     (rule reports_error_error_result)

lemma get_payee_locations_by_payee_safe: "tool_safe (func_body (get_payee_locations_by_payee R))"
  unfolding get_payee_locations_by_payee_def
  by (simp, rule tool_safeI, erule get_payee_locations_by_payee_try_trace)
     (rule reports_error_error_result)

lemma search_payees_safe: "tool_safe (func_body (search_payees R))"
  unfolding search_payees_def
  by (simp, rule tool_safeI, erule search_payees_try_trace)
     (rule reports_error_error_result)

lemma get_user_safe: "tool_safe (func_body (get_user R))"
  unfolding get_user_def
  by (simp, rule tool_safeI, erule get_user_try_trace)
     (rule reports_error_error_result)

lemma verify_api_key_safe: "tool_safe (func_body (verify_api_key R))"
  unfolding verify_api_key_def
  by (simp, rule tool_safeI, erule verify_api_key_try_trace)
     (simp add: reports_error_def logger_log_def)

lemma registered_tools_safe:
  "t \<in> set (registered_tools R) \<Longrightarrow> tool_safe (func_body (tool_function t))"
  unfolding registered_tools_def tool_function_def
  by (auto simp: get_budgets_safe get_budget_by_id_safe get_budget_settings_safe get_accounts_safe get_account_by_id_safe create_account_safe get_account_balance_safe get_transactions_safe get_transaction_by_id_safe create_transaction_safe update_transaction_safe delete_transaction_safe import_transactions_safe get_categories_safe get_category_by_id_safe get_month_category_safe update_category_safe update_month_category_safe get_category_balance_safe get_payees_safe get_payee_by_id_safe update_payee_safe get_payee_locations_safe get_payee_location_by_id_safe get_payee_locations_by_payee_safe search_payees_safe get_user_safe verify_api_key_safe)


text \<open>
  C4.  For every invocation of a registered tool (with arguments that fit its
  signature, logging enabled or not), no exception reaches the caller: the
  tool returns a mapping.  It makes at most one call into the client library,
  and when that call raised an exception \<open>e\<close>, the mapping returned holds
  \<open>str(e)\<close> under the key \<open>error\<close>.
\<close>

theorem tools_return_error_mappings:
  assumes "t \<in> set (registered_tools R)"
    and "sig_bind (func_params (tool_function t)) args kwargs = Inr bound"
  shows "\<exists>result d' w'.
     invoke t args kwargs (d, w) = (Inr result, d', w')
     \<and> (calls w' = calls w
          \<or> (\<exists>ev. calls w' = calls w @ [ev]
                \<and> (\<forall>e. api_raised ev = Some e \<longrightarrow>
                       map_of result ''error'' = Some (VStr (exn_str e)))))"
proof -
  let ?f = "tool_function t"
  from registered_tools_safe [OF assms(1)]
  obtain result w' where b: "func_body ?f (apply_defaults (func_params ?f) bound) w = (Inr result, w')"
    and c: "calls w' = calls w
          \<or> (\<exists>ev. calls w' = calls w @ [ev]
                \<and> (\<forall>e. api_raised ev = Some e \<longrightarrow>
                       map_of result ''error'' = Some (VStr (exn_str e))))"
    unfolding tool_safe_def by blast
  have p: "py_call ?f args kwargs w = (Inr result, w')"
    using assms(2) b by (simp add: py_call_def)
  have "\<exists>d'. invoke t args kwargs (d, w) = (Inr result, d', w')"
    using p assms(2)
    by (cases t) (simp_all add: invoke_def tool_function_def log_tool_call_def Let_def)
  with c show ?thesis by blast
qed

theorem tools_return_error_mappings_witness:
  "invoke (Logged (delete_transaction stub_remote)) []
      [(''transaction_id'', VStr ''t9'')] (logging_off, ready)
   = (Inr [(''error'', VStr ''(404) Not Found'')], logging_off,
      ready\<lparr>ynab_client := Some (ApiClient ''k'' 0), constructed := 1,
            calls := [ApiEvent ''delete_transaction''
                        [(''budget_id'', VStr ''last-used''), (''transaction_id'', VStr ''t9'')]
                        (Some (PyException ''ApiException'' ''(404) Not Found''))],
            logger_records := [(''INFO'', ''YNAB API client initialized''),
              (''ERROR'', ''Error deleting transaction t9: (404) Not Found'')]\<rparr>)"
proof -
  have h1: "Logged (delete_transaction stub_remote) \<in> set (registered_tools stub_remote)"
    by (simp add: registered_tools_def)
  have h2: "sig_bind (func_params (tool_function (Logged (delete_transaction stub_remote)))) []
      [(''transaction_id'', VStr ''t9'')] = Inr [(''transaction_id'', VStr ''t9'')]"
    by (simp add: tool_function_def delete_transaction_def)
  from tools_return_error_mappings [OF h1 h2, of logging_off ready]
  obtain result d' w' where
    "invoke (Logged (delete_transaction stub_remote)) [] [(''transaction_id'', VStr ''t9'')]
       (logging_off, ready) = (Inr result, d', w')"
    by blast
  moreover have "invoke (Logged (delete_transaction stub_remote)) []
      [(''transaction_id'', VStr ''t9'')] (logging_off, ready)
   = (Inr [(''error'', VStr ''(404) Not Found'')], logging_off,
      ready\<lparr>ynab_client := Some (ApiClient ''k'' 0), constructed := 1,
            calls := [ApiEvent ''delete_transaction''
                        [(''budget_id'', VStr ''last-used''), (''transaction_id'', VStr ''t9'')]
                        (Some (PyException ''ApiException'' ''(404) Not Found''))],
            logger_records := [(''INFO'', ''YNAB API client initialized''),
              (''ERROR'', ''Error deleting transaction t9: (404) Not Found'')]\<rparr>)"
    by (simp add: invoke_def log_tool_call_def logging_off_def py_call_def delete_transaction_def
        delete_transaction_try_def try_except_def bind_a_def api_call_def Let_def ready_def
        process_start_def get_ynab_client_def os_getenv_def logger_log_def get_budget_id_def
        arg_def stub_remote_def error_result_def py_str_def)
  ultimately show ?thesis by simp
qed



subsection \<open>Call logging per invocation\<close>

text \<open>
  What the decorator does per invocation: with the flag enabled, a tool under
  \<open>@log_tool_call\<close> prints exactly one line, made of the name of the tool and
  its arguments with the defaults applied; with the flag disabled, nothing is
  printed; a string argument of more than 50 characters is cut to 47 and
  marked with an ellipsis.  A tool without the decorator prints nothing.
\<close>

lemma logged_invocation_logs_once:
  assumes "LOGGING_ENABLED d" and "sig_bind (func_params f) args kwargs = Inr bound"
  shows "stderr (fst (snd (invoke (Logged f) args kwargs (d, w)))) =
    stderr d @ [log_message (func_name f) (apply_defaults (func_params f) bound)]"
  using assms
  by (simp add: invoke_def log_tool_call_def Let_def debug_log_tool_call_def split: prod.splits)

lemma disabled_invocation_logs_nothing:
  assumes "\<not> LOGGING_ENABLED d"
  shows "stderr (fst (snd (invoke t args kwargs (d, w)))) = stderr d"
  using assms
  by (cases t) (simp_all add: invoke_def log_tool_call_def split: prod.splits)

lemma plain_invocation_logs_nothing:
  "stderr (fst (snd (invoke (Plain f) args kwargs (d, w)))) = stderr d"
  by (simp add: invoke_def split: prod.splits)

lemma format_value_truncates:
  "length s > 50 \<Longrightarrow> format_value (VStr s) = [CHR 0x22] @ take 47 s @ ''...'' @ [CHR 0x22]"
  by (simp add: format_value_def)

text \<open>
  C7 asks for one log line per invocation of every tool when logging is
  enabled.  The seven tools of payees.py are registered without
  \<open>@log_tool_call\<close>: with logging enabled \<open>get_payees\<close> prints nothing, where
  \<open>get_categories\<close> prints its line.
\<close>

theorem get_payees_not_logged:
  "Plain (get_payees stub_remote) \<in> set (registered_tools stub_remote)
   \<and> stderr (fst (snd (invoke (Plain (get_payees stub_remote)) [] [] (logging_on, ready)))) = []
   \<and> stderr (fst (snd (invoke (Logged (get_categories stub_remote)) [] [] (logging_on, ready)))) =
       [''TOOL_CALL: get_categories(budget_id='' @ str_repr ''default''
          @ '', last_knowledge_of_server=None)'']"
  by (simp add: registered_tools_def plain_invocation_logs_nothing logging_on_def
      invoke_def log_tool_call_def get_categories_def debug_log_tool_call_def log_message_def
      format_value_def Let_def split: prod.splits)

subsection \<open>Formatted companions of monetary fields\<close>

lemma client_then_call_cases:
  assumes "bind_a get_ynab_client (\<lambda>api_client. bind_a (api_call R m kw) k) w = (Inr result, w')"
    and "\<And>resp w2. k resp w2 = (Inr result, w') \<Longrightarrow> P"
  shows P
  using assms by (auto simp: bind_a_def split: prod.splits sum.splits)

lemma try_except_result:
  "try_except m (error_result msg) w = (Inr result, w') \<Longrightarrow>
   (\<exists>w1. m w = (Inr result, w1)) \<or> (\<exists>e. result = [(''error'', VStr (exn_str e))])"
  by (auto simp: try_except_def error_result_def split: prod.splits sum.splits)

lemma has_companions_error: "has_companions [(''error'', x)]"
  by (simp add: has_companions_def monetary_fields_def)

lemma body_companions:
  assumes "\<And>w1. m w = (Inr result, w1) \<Longrightarrow> has_companions result"
    and "fst (try_except m (error_result msg) w) = Inr result"
  shows "has_companions result"
proof -
  obtain w' where "try_except m (error_result msg) w = (Inr result, w')"
    using assms(2) by (cases "try_except m (error_result msg) w") simp
  from try_except_result [OF this] assms(1) show ?thesis
    by (auto simp: has_companions_error)
qed

lemma category_amounts_shape:
  "category_amounts cat = Inr amounts \<Longrightarrow>
   \<exists>s1 s2 s3. currency_formatted (c_budgeted cat) = Inr s1
     \<and> currency_formatted (c_activity cat) = Inr s2
     \<and> currency_formatted (c_balance cat) = Inr s3
     \<and> amounts = [(''budgeted'', VInt (c_budgeted cat)), (''budgeted_formatted'', VStr s1),
                  (''activity'', VInt (c_activity cat)), (''activity_formatted'', VStr s2),
                  (''balance'', VInt (c_balance cat)), (''balance_formatted'', VStr s3)]"
  by (auto simp: category_amounts_def split: sum.splits)

lemma category_detail_dict_companions:
  "category_detail_dict b cat = Inr d \<Longrightarrow> has_companions d"
  by (auto simp: category_detail_dict_def has_companions_def monetary_fields_def
      split: sum.splits dest!: category_amounts_shape)

lemma listed_category_dict_companions:
  "listed_category_dict cat = Inr d \<Longrightarrow> has_companions d"
  by (auto simp: listed_category_dict_def has_companions_def monetary_fields_def
      split: sum.splits dest!: category_amounts_shape)

lemma transaction_dict_companions:
  "transaction_dict trn = Inr d \<Longrightarrow> has_companions d"
  by (auto simp: transaction_dict_def has_companions_def monetary_fields_def split: sum.splits)

lemma saved_transaction_dict_companions:
  "saved_transaction_dict trn msg = Inr d \<Longrightarrow> has_companions d"
  by (auto simp: saved_transaction_dict_def has_companions_def monetary_fields_def
      split: sum.splits)

lemma get_category_by_id_try_companions:
  "get_category_by_id_try R args w = (Inr result, w') \<Longrightarrow> has_companions result"
  unfolding get_category_by_id_try_def Let_def
  apply (erule client_then_call_cases)
  subgoal for resp w2
    by (cases resp) (auto simp: lift_a_def raise_a_def return_a_def dest: category_detail_dict_companions)
  done

lemma get_month_category_try_companions:
  "get_month_category_try R args w = (Inr result, w') \<Longrightarrow> has_companions result"
  unfolding get_month_category_try_def Let_def
  apply (erule client_then_call_cases)
  subgoal for resp w2
    by (cases resp) (auto simp: lift_a_def raise_a_def return_a_def dest: category_detail_dict_companions)
  done

lemma get_transaction_by_id_try_companions:
  "get_transaction_by_id_try R args w = (Inr result, w') \<Longrightarrow> has_companions result"
  unfolding get_transaction_by_id_try_def Let_def
  apply (erule client_then_call_cases)
  subgoal for resp w2
    by (cases resp) (auto simp: lift_a_def raise_a_def return_a_def dest: transaction_dict_companions)
  done

lemma update_transaction_try_companions:
  "update_transaction_try R args w = (Inr result, w') \<Longrightarrow> has_companions result"
  unfolding update_transaction_try_def Let_def
  apply (erule client_then_call_cases)
  subgoal for resp w2
    by (cases resp) (auto simp: lift_a_def raise_a_def return_a_def dest: saved_transaction_dict_companions)
  done

lemma update_category_try_companions:
  "update_category_try R args w = (Inr result, w') \<Longrightarrow> has_companions result"
  unfolding update_category_try_def Let_def
  apply (erule client_then_call_cases)
  subgoal for resp w2
    by (cases resp) (auto simp: lift_a_def raise_a_def return_a_def bind_a_def has_companions_def monetary_fields_def split: sum.splits option.splits dest!: category_amounts_shape)
  done

lemma update_month_category_try_companions:
  "update_month_category_try R args w = (Inr result, w') \<Longrightarrow> has_companions result"
  unfolding update_month_category_try_def Let_def
  apply (erule client_then_call_cases)
  subgoal for resp w2
    by (cases resp) (auto simp: lift_a_def raise_a_def return_a_def bind_a_def has_companions_def monetary_fields_def split: sum.splits option.splits dest!: category_amounts_shape)
  done

lemma get_account_balance_try_companions:
  "get_account_balance_try R args w = (Inr result, w') \<Longrightarrow> has_companions result"
  unfolding get_account_balance_try_def Let_def
  apply (erule client_then_call_cases)
  subgoal for resp w2
    by (cases resp) (auto simp: lift_a_def raise_a_def return_a_def bind_a_def has_companions_def monetary_fields_def split: sum.splits option.splits dest!: category_amounts_shape)
  done

lemma create_transaction_try_companions:
  "create_transaction_try R args w = (Inr result, w') \<Longrightarrow> has_companions result"
  unfolding create_transaction_try_def Let_def
  apply (simp split: if_splits)
    apply (auto simp: return_a_def has_companions_error)[2]
  apply (erule client_then_call_cases)
  subgoal for resp w2
    apply (cases resp)
    apply (auto simp: lift_a_def raise_a_def return_a_def split: option.splits
        dest: saved_transaction_dict_companions)
    apply (simp_all add: has_companions_def monetary_fields_def)
    done
  done

lemma get_category_balance_try_companions:
  "get_category_balance_try R args w = (Inr result, w') \<Longrightarrow> has_companions result"
  unfolding get_category_balance_try_def Let_def
  apply (simp split: if_splits)
   apply (erule client_then_call_cases)
  subgoal for resp w2
    by (cases resp) (auto simp: lift_a_def raise_a_def return_a_def bind_a_def has_companions_def monetary_fields_def split: sum.splits option.splits dest!: category_amounts_shape)
  apply (erule client_then_call_cases)
  subgoal for resp w2
    by (cases resp) (auto simp: lift_a_def raise_a_def return_a_def bind_a_def has_companions_def monetary_fields_def split: sum.splits option.splits dest!: category_amounts_shape)
  done

lemma flat_formatted_tools_companions:
  assumes "f \<in> set (flat_formatted_tools R)" and "fst (func_body f args w) = Inr result"
  shows "has_companions result"
proof -
  from assms(1) consider "f = get_account_balance R" | "f = get_category_by_id R"
    | "f = get_month_category R" | "f = update_category R" | "f = update_month_category R"
    | "f = get_category_balance R" | "f = get_transaction_by_id R" | "f = create_transaction R"
    | "f = update_transaction R"
    by (auto simp: flat_formatted_tools_def)
  then show ?thesis
  proof cases
    case 1
    with assms(2) show ?thesis
      by (simp add: get_account_balance_def) (erule body_companions [rotated], erule get_account_balance_try_companions)
  next
    case 2
    with assms(2) show ?thesis
      by (simp add: get_category_by_id_def) (erule body_companions [rotated], erule get_category_by_id_try_companions)
  next
    case 3
    with assms(2) show ?thesis
      by (simp add: get_month_category_def) (erule body_companions [rotated], erule get_month_category_try_companions)
  next
    case 4
    with assms(2) show ?thesis
      by (simp add: update_category_def) (erule body_companions [rotated], erule update_category_try_companions)
  next
    case 5
    with assms(2) show ?thesis
      by (simp add: update_month_category_def) (erule body_companions [rotated], erule update_month_category_try_companions)
  next
    case 6
    with assms(2) show ?thesis
      by (simp add: get_category_balance_def) (erule body_companions [rotated], erule get_category_balance_try_companions)
  next
    case 7
    with assms(2) show ?thesis
      by (simp add: get_transaction_by_id_def) (erule body_companions [rotated], erule get_transaction_by_id_try_companions)
  next
    case 8
    with assms(2) show ?thesis
      by (simp add: create_transaction_def) (erule body_companions [rotated], erule create_transaction_try_companions)
  next
    case 9
    with assms(2) show ?thesis
      by (simp add: update_transaction_def) (erule body_companions [rotated], erule update_transaction_try_companions)
  qed
qed


lemma categories_loop_companions:
  "categories_loop cats acc = Inr out \<Longrightarrow> dicts_have_companions acc \<Longrightarrow> dicts_have_companions out"
proof (induction cats arbitrary: acc)
  case Nil
  then show ?case by simp
next
  case (Cons cat rest)
  from Cons.prems(1) obtain d where d: "listed_category_dict cat = Inr d"
    and r: "categories_loop rest (acc @ [VDict d]) = Inr out"
    by (auto split: sum.splits)
  have "dicts_have_companions (acc @ [VDict d])"
    using Cons.prems(2) listed_category_dict_companions [OF d]
    by (auto simp: dicts_have_companions_def)
  with Cons.IH [OF r] show ?case .
qed

lemma transactions_loop_companions:
  "transactions_loop ts acc = Inr out \<Longrightarrow> dicts_have_companions acc \<Longrightarrow> dicts_have_companions out"
proof (induction ts arbitrary: acc)
  case Nil
  then show ?case by simp
next
  case (Cons trn rest)
  from Cons.prems(1) obtain d where d: "transaction_dict trn = Inr d"
    and r: "transactions_loop rest (acc @ [VDict d]) = Inr out"
    by (auto split: sum.splits)
  have "dicts_have_companions (acc @ [VDict d])"
    using Cons.prems(2) transaction_dict_companions [OF d]
    by (auto simp: dicts_have_companions_def)
  with Cons.IH [OF r] show ?case .
qed

lemma group_dict_companions:
  "group_dict grp = Inr d \<Longrightarrow> map_of d ''categories'' = Some (VList cats) \<Longrightarrow>
   dicts_have_companions cats"
  by (auto simp: group_dict_def dicts_have_companions_def split: sum.splits option.splits
      dest!: categories_loop_companions)

lemma category_groups_loop_companions:
  "category_groups_loop groups acc = Inr out \<Longrightarrow> groups_have_companions acc \<Longrightarrow>
   groups_have_companions out"
proof (induction groups arbitrary: acc)
  case Nil
  then show ?case by simp
next
  case (Cons grp rest)
  from Cons.prems(1) obtain d where d: "group_dict grp = Inr d"
    and r: "category_groups_loop rest (acc @ [VDict d]) = Inr out"
    by (auto split: sum.splits)
  have "groups_have_companions (acc @ [VDict d])"
    using Cons.prems(2) group_dict_companions [OF d]
    by (auto simp: groups_have_companions_def)
  with Cons.IH [OF r] show ?case .
qed

lemma get_transactions_try_companions:
  "get_transactions_try R args w = (Inr result, w') \<Longrightarrow>
   map_of result ''transactions'' = Some (VList items) \<Longrightarrow> dicts_have_companions items"
  unfolding get_transactions_try_def Let_def
  apply (erule client_then_call_cases)
  subgoal for resp w2
    by (cases resp)
       (auto simp: lift_a_def raise_a_def return_a_def bind_a_def dicts_have_companions_def
         split: sum.splits dest!: transactions_loop_companions)
  done

lemma get_categories_try_companions:
  "get_categories_try R args w = (Inr result, w') \<Longrightarrow>
   map_of result ''category_groups'' = Some (VList groups) \<Longrightarrow> groups_have_companions groups"
  unfolding get_categories_try_def Let_def
  apply (erule client_then_call_cases)
  subgoal for resp w2
    by (cases resp)
       (auto simp: lift_a_def raise_a_def return_a_def bind_a_def groups_have_companions_def
         split: sum.splits dest!: category_groups_loop_companions)
  done

text \<open>
  C5, as amended.  Every mapping returned by \<open>get_account_balance\<close>,
  \<open>get_category_by_id\<close>, \<open>get_month_category\<close>, \<open>update_category\<close>,
  \<open>update_month_category\<close>, \<open>get_category_balance\<close>, \<open>get_transaction_by_id\<close>,
  \<open>create_transaction\<close> and \<open>update_transaction\<close>, every transaction mapping in
  the list of \<open>get_transactions\<close> and every category mapping in the groups of
  \<open>get_categories\<close> holds, for each of the monetary fields \<open>budgeted\<close>,
  \<open>activity\<close>, \<open>balance\<close>, \<open>available\<close>, \<open>amount\<close>, \<open>cleared_balance\<close> and
  \<open>uncleared_balance\<close> it contains, the companion \<open><field>_formatted\<close> computed
  by the milliunit-to-currency rule.
\<close>

theorem formatted_companions:
  "(\<forall>f \<in> set (flat_formatted_tools R). \<forall>args w result.
      fst (func_body f args w) = Inr result \<longrightarrow> has_companions result)
   \<and> (\<forall>args w result items.
      fst (func_body (get_transactions R) args w) = Inr result \<longrightarrow>
      map_of result ''transactions'' = Some (VList items) \<longrightarrow> dicts_have_companions items)
   \<and> (\<forall>args w result groups.
      fst (func_body (get_categories R) args w) = Inr result \<longrightarrow>
      map_of result ''category_groups'' = Some (VList groups) \<longrightarrow> groups_have_companions groups)"
proof (intro conjI ballI allI impI)
  fix f args w result
  assume "f \<in> set (flat_formatted_tools R)" "fst (func_body f args w) = Inr result"
  then show "has_companions result" by (rule flat_formatted_tools_companions)
next
  fix args w result items
  assume a: "fst (func_body (get_transactions R) args w) = Inr result"
    and b: "map_of result ''transactions'' = Some (VList items)"
  obtain w' where t: "try_except (get_transactions_try R args)
      (error_result ''Error getting transactions'') w = (Inr result, w')"
    using a by (cases "func_body (get_transactions R) args w") (simp add: get_transactions_def)
  from try_except_result [OF t] b show "dicts_have_companions items"
    by (auto dest: get_transactions_try_companions)
next
  fix args w result groups
  assume a: "fst (func_body (get_categories R) args w) = Inr result"
    and b: "map_of result ''category_groups'' = Some (VList groups)"
  obtain w' where t: "try_except (get_categories_try R args)
      (error_result ''Error getting categories'') w = (Inr result, w')"
    using a by (cases "func_body (get_categories R) args w") (simp add: get_categories_def)
  from try_except_result [OF t] b show "groups_have_companions groups"
    by (auto dest: get_categories_try_companions)
qed

theorem formatted_companions_witness:
  "map_of (projr (fst (func_body (get_category_by_id stub_remote)
       [(''category_id'', VStr ''c1''), (''budget_id'', VStr ''default'')] ready))) ''budgeted''
     = Some (VInt 1200000)
   \<and> map_of (projr (fst (func_body (get_category_by_id stub_remote)
       [(''category_id'', VStr ''c1''), (''budget_id'', VStr ''default'')] ready)))
       ''budgeted_formatted'' = Some (VStr ''$1200.00'')"
proof -
  let ?args = "[(''category_id'', VStr ''c1''), (''budget_id'', VStr ''default'')]"
  have m: "get_category_by_id stub_remote \<in> set (flat_formatted_tools stub_remote)"
    by (simp add: flat_formatted_tools_def)
  have f: "currency_formatted 1200000 = Inr ''$1200.00''" by code_simp
  have g: "currency_formatted (- 1200000) = Inr ''$-1200.00''" by code_simp
  have z: "currency_formatted 0 = Inr ''$0.00''" by code_simp
  have r: "fst (func_body (get_category_by_id stub_remote) ?args ready) =
      Inr (projr (category_detail_dict True sample_category))"
    by (simp add: get_category_by_id_def get_category_by_id_try_def try_except_def bind_a_def
      api_call_def lift_a_def Let_def ready_def process_start_def get_ynab_client_def
      os_getenv_def logger_log_def stub_remote_def category_detail_dict_def
      category_amounts_def sample_category_def f g z)
  have b: "map_of (projr (category_detail_dict True sample_category)) ''budgeted'' = Some (VInt 1200000)"
    by (simp add: category_detail_dict_def category_amounts_def sample_category_def f g z)
  from formatted_companions [of stub_remote] m r
  have "has_companions (projr (category_detail_dict True sample_category))" by blast
  with b f have "map_of (projr (category_detail_dict True sample_category)) ''budgeted_formatted''
      = Some (VStr ''$1200.00'')"
    by (auto simp: has_companions_def monetary_fields_def)
  with b r show ?thesis by simp
qed

text \<open>
  C5 as stated, for every projection of every tool, fails: the account
  mappings of \<open>get_accounts\<close> hold \<open>balance\<close> and no \<open>balance_formatted\<close>.
\<close>

theorem get_accounts_no_companion:
  "fst (func_body (get_accounts stub_remote)
         [(''budget_id'', VStr ''default''), (''last_knowledge_of_server'', VNone),
          (''include_closed'', VBool False), (''include_deleted'', VBool False)] ready)
     = Inr [(''accounts'', VList [VDict (account_dict sample_account)]),
            (''server_knowledge'', VInt 7)]
   \<and> map_of (account_dict sample_account) ''balance'' = Some (VInt 10500)
   \<and> map_of (account_dict sample_account) ''balance_formatted'' = None
   \<and> \<not> has_companions (account_dict sample_account)"
  by (simp add: get_accounts_def get_accounts_try_def try_except_def bind_a_def api_call_def
      return_a_def Let_def ready_def process_start_def get_ynab_client_def os_getenv_def
      logger_log_def get_budget_id_def arg_def stub_remote_def account_dict_def
      sample_account_def has_companions_def monetary_fields_def)


end
